theory Spec2Isabelle
  imports Complex_Main "HOL-Library.Word"
begin

section \<open>The File class of fdp-storage (src/file/file.ts)\<close>

text \<open>
  The class \<^verbatim>\<open>File\<close> drives the file operations of a pod: it splits a payload into
  blocks, uploads them, uploads the manifest, registers the directory entry and publishes
  the metadata through a feed; it shares, imports and downloads files.

  Only \<^verbatim>\<open>file.ts\<close> is modelled from code. Every function it imports lives in another
  module; those functions are parameters of the model, collected in the record \<open>env\<close>:
  an assertion helper is a predicate on its argument, a pure helper is a function, and a
  helper that talks to the network is a function on an opaque collaborator state \<open>'s\<close>
  that returns either an error message or its result, with the new state.
  Every call that leaves \<^verbatim>\<open>file.ts\<close> towards the network, and the reading of the
  clock, is appended to a trace, so that the order of the calls and the data that flows
  between them can be stated.
\<close>

subsection \<open>Data\<close>

type_synonym byte = "8 word"
type_synonym bytes = "byte list"
type_synonym Reference = string
type_synonym EthAddress = string

datatype Bee = Bee string

record Options =
  downloadOptions :: "string option"

record Connection =
  bee :: Bee
  options :: "Options option"

text \<open>
  \<^verbatim>\<open>AccountData\<close>: file.ts reads the field \<^verbatim>\<open>connection\<close> only; whatever else the
  class holds (the session) sits in the extension slot of the record scheme.
\<close>

record AccountData =
  connection :: Connection

record Wallet =
  address :: EthAddress
  privateKey :: string

text \<open>The result of \<^verbatim>\<open>getExtendedPodsListByAccountData\<close>, with the two fields file.ts reads.\<close>

record ExtendedInfo =
  extPodAddress :: EthAddress
  podWallet :: Wallet

record PathInfo =
  path :: string
  filename :: string

record Block =
  name :: string
  size_blk :: int
  compressedSize :: int
  reference :: Reference

record Blocks =
  blocks :: "Block list"

record FileMetadata =
  version :: string
  podAddress :: EthAddress
  podName :: string
  filePath :: string
  fileName :: string
  fileSize :: int
  blockSize :: int
  contentType :: string
  compression :: string
  creationTime :: int
  accessTime :: int
  modificationTime :: int
  blocksReference :: Reference

text \<open>
  The raw (wire) metadata: file.ts reads \<^verbatim>\<open>file_path\<close> and \<^verbatim>\<open>file_name\<close>; the other
  fields sit in the extension slot.
\<close>

record RawFileMetadata =
  file_path :: string
  file_name :: string

record 'z FileShareInfo =
  meta :: "'z RawFileMetadata_scheme"
  source_address :: string

record SharedPodInfo =
  pod_address :: string

text \<open>
  \<^verbatim>\<open>DataUploadOptions\<close> as a caller passes it: each field may be absent, and the whole
  argument may be absent. \<^verbatim>\<open>FileReceiveOptions\<close> likewise.
\<close>

record DataUploadOptions =
  blockSize_opt :: "int option"
  contentType_opt :: "string option"

record FileReceiveOptions =
  name_opt :: "string option"

datatype payload = Bytes bytes | Text string

subsection \<open>Errors, events and the world\<close>

text \<open>
  The assertion helpers (\<^verbatim>\<open>assertAccount\<close>, \<^verbatim>\<open>assertPodName\<close>,
  \<^verbatim>\<open>assertFullPathWithName\<close>, \<^verbatim>\<open>assertEncryptedReference\<close>, \<^verbatim>\<open>assertRawFileMetadata\<close>)
  are imported: each is a predicate of \<open>env\<close>, and when it does not hold the helper throws.
  The error says which assertion threw; the constructors carry the names that the spec's
  taxonomy gives these errors. An error that a network collaborator raises is passed on
  unchanged, as \<open>Remote\<close> with its message.
\<close>

datatype error =
    NotAuthenticated
  | InvalidPodName
  | InvalidPath
  | InvalidReference
  | CorruptMetadata
  | Remote string

text \<open>
  One event per call that leaves file.ts. The three call sites of \<^verbatim>\<open>uploadBytes\<close>
  (a block, line 85; the manifest, line 95; the share info, line 156) have an event each,
  which records the bytes sent and the reference returned (\<open>None\<close> when the call failed).
\<close>

datatype event =
    GetExtendedPodsList string
  | Now int
  | UploadBlock bytes "Reference option"
  | UploadManifest bytes "Reference option"
  | UploadShareInfo bytes "Reference option"
  | AddEntryToDirectory Wallet string string bool
  | RemoveEntryFromDirectory Wallet string string bool
  | WriteFeedData string bytes string
  | GetRawMetadata string EthAddress
  | GetSharedFileInfo string
  | GetSharedPodInfo string
  | DownloadData string EthAddress

record 's world =
  trace :: "event list"
  ext :: 's

record ('s, 'x, 'z) env =
  assertAccount :: "'x AccountData_scheme \<Rightarrow> bool"
  assertPodName :: "string \<Rightarrow> bool"
  assertFullPathWithName :: "string \<Rightarrow> bool"
  assertEncryptedReference :: "string \<Rightarrow> bool"
  assertRawFileMetadata :: "'z RawFileMetadata_scheme \<Rightarrow> bool"
  META_VERSION :: string
  extractPathInfo :: "string \<Rightarrow> PathInfo"
  combine :: "string \<Rightarrow> string \<Rightarrow> string"
  stringToBytes :: "string \<Rightarrow> bytes"
  wrapBytesWithHelpers :: "bytes \<Rightarrow> bytes"
  prepareEthAddress :: "string \<Rightarrow> EthAddress"
  generateBlockName :: "nat \<Rightarrow> string"
  blocksToManifest :: "Blocks \<Rightarrow> string"
  getFileMetadataRawBytes :: "FileMetadata \<Rightarrow> bytes"
  rawFileMetadataToFileMetadata :: "'z RawFileMetadata_scheme \<Rightarrow> FileMetadata"
  createFileShareInfo :: "'z RawFileMetadata_scheme \<Rightarrow> EthAddress \<Rightarrow> 'z FileShareInfo"
  JSON_stringify :: "'z FileShareInfo \<Rightarrow> string"
  getUnixTimestamp :: "'s \<Rightarrow> int"
  getExtendedPodsListByAccountData ::
    "'x AccountData_scheme \<Rightarrow> string \<Rightarrow> 's \<Rightarrow> (string + ExtendedInfo) \<times> 's"
  uploadBytes :: "Connection \<Rightarrow> bytes \<Rightarrow> 's \<Rightarrow> (string + Reference) \<times> 's"
  writeFeedData :: "Connection \<Rightarrow> string \<Rightarrow> bytes \<Rightarrow> string \<Rightarrow> 's \<Rightarrow> (string + unit) \<times> 's"
  addEntryToDirectory ::
    "Connection \<Rightarrow> Wallet \<Rightarrow> string \<Rightarrow> string \<Rightarrow> bool \<Rightarrow> 's \<Rightarrow> (string + unit) \<times> 's"
  removeEntryFromDirectory ::
    "Connection \<Rightarrow> Wallet \<Rightarrow> string \<Rightarrow> string \<Rightarrow> bool \<Rightarrow> 's \<Rightarrow> (string + unit) \<times> 's"
  getRawMetadata ::
    "Bee \<Rightarrow> string \<Rightarrow> EthAddress \<Rightarrow> 's \<Rightarrow> (string + 'z RawFileMetadata_scheme) \<times> 's"
  getSharedFileInfo :: "Bee \<Rightarrow> string \<Rightarrow> 's \<Rightarrow> (string + 'z FileShareInfo) \<times> 's"
  getSharedPodInfo :: "Bee \<Rightarrow> string \<Rightarrow> 's \<Rightarrow> (string + SharedPodInfo) \<times> 's"
  handler_downloadData ::
    "Bee \<Rightarrow> string \<Rightarrow> EthAddress \<Rightarrow> string option \<Rightarrow> 's \<Rightarrow> (string + bytes) \<times> 's"

text \<open>
  \<open>call ev f\<close> runs the collaborator \<open>f\<close> on the collaborator state and appends \<open>ev\<close>
  to the trace; \<open>upload mk\<close> does so for \<^verbatim>\<open>uploadBytes\<close>, whose event records the
  outcome. Of the \<^verbatim>\<open>UploadResult\<close> only the field \<^verbatim>\<open>reference\<close> is read.
\<close>

definition call :: "event \<Rightarrow> ('s \<Rightarrow> (string + 'a) \<times> 's) \<Rightarrow> 's world \<Rightarrow> (error + 'a) \<times> 's world" where
  "call ev f w =
     (case f (ext w) of
        (Inl m, s) \<Rightarrow> (Inl (Remote m), \<lparr>trace = trace w @ [ev], ext = s\<rparr>)
      | (Inr x, s) \<Rightarrow> (Inr x, \<lparr>trace = trace w @ [ev], ext = s\<rparr>))"

definition upload ::
  "(bytes \<Rightarrow> Reference option \<Rightarrow> event) \<Rightarrow> ('s, 'x, 'z) env \<Rightarrow> Connection \<Rightarrow> bytes \<Rightarrow> 's world
     \<Rightarrow> (error + Reference) \<times> 's world" where
  "upload mk E conn b w =
     (case uploadBytes E conn b (ext w) of
        (Inl m, s) \<Rightarrow> (Inl (Remote m), \<lparr>trace = trace w @ [mk b None], ext = s\<rparr>)
      | (Inr r, s) \<Rightarrow> (Inr r, \<lparr>trace = trace w @ [mk b (Some r)], ext = s\<rparr>))"

subsection \<open>JavaScript numbers and slices\<close>

text \<open>
  \<^verbatim>\<open>Math.ceil(data.length / options.blockSize)\<close> for a length and an integer block size.
  A division by zero gives \<^verbatim>\<open>Infinity\<close> (or \<^verbatim>\<open>NaN\<close> for 0/0) in JavaScript; for a
  non-zero divisor the rounded quotient of two integers below \<open>2^53\<close> has the same ceiling as
  the exact one, which integer division gives. The block size is an integer here (the
  type \<^verbatim>\<open>number\<close> also has fractions, which this model leaves out).
\<close>

datatype jsnum = Fin int | PosInf | NaN

definition ceil_div :: "nat \<Rightarrow> int \<Rightarrow> jsnum" where
  "ceil_div a b =
     (if b = 0 then (if a = 0 then NaN else PosInf)
      else Fin (- ((- int a) div b)))"

text \<open>The loop test \<^verbatim>\<open>i < blocksCount\<close>.\<close>

fun js_less :: "nat \<Rightarrow> jsnum \<Rightarrow> bool" where
  "js_less i (Fin n) = (int i < n)"
| "js_less i PosInf = True"
| "js_less i NaN = False"

text \<open>
  \<^verbatim>\<open>Uint8Array.prototype.slice(start, end)\<close>: a negative index counts from the end, and
  both indices are clamped to the array.
\<close>

definition js_slice :: "'a list \<Rightarrow> int \<Rightarrow> int \<Rightarrow> 'a list" where
  "js_slice xs start end =
     (let len = int (length xs);
          k = (if start < 0 then max (len + start) 0 else min start len);
          final = (if end < 0 then max (len + end) 0 else min end len)
      in take (nat (final - k)) (drop (nat k) xs))"

subsection \<open>uploadData\<close>

definition defaultUploadOptions_blockSize :: int where
  "defaultUploadOptions_blockSize = 1000000"

definition defaultUploadOptions_contentType :: string where
  "defaultUploadOptions_contentType = []"

text \<open>
  \<^verbatim>\<open>{ ...this.defaultUploadOptions, ...options }\<close>: a field that the caller gives replaces
  the default.
\<close>

definition merged_blockSize :: "DataUploadOptions option \<Rightarrow> int" where
  "merged_blockSize opts =
     (case opts of None \<Rightarrow> defaultUploadOptions_blockSize
      | Some d \<Rightarrow> (case blockSize_opt d of None \<Rightarrow> defaultUploadOptions_blockSize | Some b \<Rightarrow> b))"

definition merged_contentType :: "DataUploadOptions option \<Rightarrow> string" where
  "merged_contentType opts =
     (case opts of None \<Rightarrow> defaultUploadOptions_contentType
      | Some d \<Rightarrow> (case contentType_opt d of None \<Rightarrow> defaultUploadOptions_contentType | Some c \<Rightarrow> c))"

text \<open>\<^verbatim>\<open>typeof data === 'string' ? stringToBytes(data) : data\<close>\<close>

definition payload_bytes :: "('s, 'x, 'z) env \<Rightarrow> payload \<Rightarrow> bytes" where
  "payload_bytes E d = (case d of Text s \<Rightarrow> stringToBytes E s | Bytes b \<Rightarrow> b)"

text \<open>
  The loop of lines 83 to 92, from index \<open>i\<close> with the descriptors collected so far. With
  \<open>blocksCount = PosInf\<close> the loop test never fails, so the loop is a partial function:
  \<open>None\<close> stands for a loop that does not return.
\<close>

partial_function (option) uploadBlocks ::
  "('s, 'x, 'z) env \<Rightarrow> Connection \<Rightarrow> bytes \<Rightarrow> int \<Rightarrow> jsnum \<Rightarrow> nat \<Rightarrow> Block list \<Rightarrow> 's world
     \<Rightarrow> ((error + Block list) \<times> 's world) option" where
  "uploadBlocks E conn data bsz blocksCount i acc w =
     (if js_less i blocksCount then
        (let currentBlock = js_slice data (int i * bsz) ((int i + 1) * bsz) in
         case upload UploadBlock E conn currentBlock w of
           (Inl e, w') \<Rightarrow> Some (Inl e, w')
         | (Inr r, w') \<Rightarrow>
             uploadBlocks E conn data bsz blocksCount (i + 1)
               (acc @ [\<lparr>name = generateBlockName E i,
                        size_blk = int (length currentBlock),
                        compressedSize = int (length currentBlock),
                        reference = r\<rparr>]) w')
      else Some (Inr acc, w))"

declare uploadBlocks.simps [code]

definition uploadData ::
  "('s, 'x, 'z) env \<Rightarrow> 'x AccountData_scheme \<Rightarrow> string \<Rightarrow> string \<Rightarrow> payload
     \<Rightarrow> DataUploadOptions option \<Rightarrow> 's world \<Rightarrow> ((error + FileMetadata) \<times> 's world) option" where
  "uploadData E accountData pod fullPath data0 opts w =
     (let bsz = merged_blockSize opts; ctype = merged_contentType opts in
      if \<not> assertAccount E accountData then Some (Inl NotAuthenticated, w)
      else if \<not> assertPodName E pod then Some (Inl InvalidPodName, w)
      else if \<not> assertFullPathWithName E fullPath then Some (Inl InvalidPath, w)
      else if \<not> assertPodName E pod then Some (Inl InvalidPodName, w)
      else
        (let data = payload_bytes E data0;
             conn = connection accountData in
         (case call (GetExtendedPodsList pod)
                 (getExtendedPodsListByAccountData E accountData pod) w of
            (Inl e, w1) \<Rightarrow> Some (Inl e, w1)
          | (Inr extendedInfo, w1) \<Rightarrow>
             (let pathInfo = extractPathInfo E fullPath;
                  now = getUnixTimestamp E (ext w1);
                  w2 = w1\<lparr>trace := trace w1 @ [Now now]\<rparr>;
                  blocksCount = ceil_div (length data) bsz
              in
              (case uploadBlocks E conn data bsz blocksCount 0 [] w2 of
                 None \<Rightarrow> None
               | Some (Inl e, w3) \<Rightarrow> Some (Inl e, w3)
               | Some (Inr blks, w3) \<Rightarrow>
                  (let manifestBytes = stringToBytes E (blocksToManifest E \<lparr>blocks = blks\<rparr>) in
                   (case upload UploadManifest E conn manifestBytes w3 of
                      (Inl e, w4) \<Rightarrow> Some (Inl e, w4)
                    | (Inr blocksRef, w4) \<Rightarrow>
                       (let m = \<lparr>version = META_VERSION E,
                                 podAddress = extPodAddress extendedInfo,
                                 podName = pod,
                                 filePath = path pathInfo,
                                 fileName = filename pathInfo,
                                 fileSize = int (length data),
                                 blockSize = bsz,
                                 contentType = ctype,
                                 compression = [],
                                 creationTime = now,
                                 accessTime = now,
                                 modificationTime = now,
                                 blocksReference = blocksRef\<rparr> in
                        (case call (AddEntryToDirectory (podWallet extendedInfo) (path pathInfo)
                                      (filename pathInfo) True)
                                (addEntryToDirectory E conn (podWallet extendedInfo)
                                      (path pathInfo) (filename pathInfo) True) w4 of
                           (Inl e, w5) \<Rightarrow> Some (Inl e, w5)
                         | (Inr u, w5) \<Rightarrow>
                            (case call (WriteFeedData fullPath (getFileMetadataRawBytes E m)
                                          (privateKey (podWallet extendedInfo)))
                                    (writeFeedData E conn fullPath (getFileMetadataRawBytes E m)
                                          (privateKey (podWallet extendedInfo))) w5 of
                               (Inl e, w6) \<Rightarrow> Some (Inl e, w6)
                             | (Inr u', w6) \<Rightarrow> Some (Inr m, w6)))))))))))"

subsection \<open>downloadData, delete, share\<close>

text \<open>\<^verbatim>\<open>this.accountData.connection.options?.downloadOptions\<close>\<close>

definition connection_downloadOptions :: "Connection \<Rightarrow> string option" where
  "connection_downloadOptions conn =
     (case options conn of None \<Rightarrow> None | Some opt \<Rightarrow> downloadOptions opt)"

definition downloadData ::
  "('s, 'x, 'z) env \<Rightarrow> 'x AccountData_scheme \<Rightarrow> string \<Rightarrow> string \<Rightarrow> 's world
     \<Rightarrow> (error + bytes) \<times> 's world" where
  "downloadData E accountData pod fullPath w =
     (if \<not> assertAccount E accountData then (Inl NotAuthenticated, w)
      else if \<not> assertPodName E pod then (Inl InvalidPodName, w)
      else if \<not> assertFullPathWithName E fullPath then (Inl InvalidPath, w)
      else if \<not> assertPodName E pod then (Inl InvalidPodName, w)
      else
        (case call (GetExtendedPodsList pod)
                (getExtendedPodsListByAccountData E accountData pod) w of
           (Inl e, w1) \<Rightarrow> (Inl e, w1)
         | (Inr extendedInfo, w1) \<Rightarrow>
             call (DownloadData fullPath (extPodAddress extendedInfo))
               (handler_downloadData E (bee (connection accountData)) fullPath
                  (extPodAddress extendedInfo)
                  (connection_downloadOptions (connection accountData))) w1))"

definition delete ::
  "('s, 'x, 'z) env \<Rightarrow> 'x AccountData_scheme \<Rightarrow> string \<Rightarrow> string \<Rightarrow> 's world
     \<Rightarrow> (error + unit) \<times> 's world" where
  "delete E accountData pod fullPath w =
     (if \<not> assertAccount E accountData then (Inl NotAuthenticated, w)
      else if \<not> assertFullPathWithName E fullPath then (Inl InvalidPath, w)
      else if \<not> assertPodName E pod then (Inl InvalidPodName, w)
      else
        (let pathInfo = extractPathInfo E fullPath in
         (case call (GetExtendedPodsList pod)
                 (getExtendedPodsListByAccountData E accountData pod) w of
            (Inl e, w1) \<Rightarrow> (Inl e, w1)
          | (Inr extendedInfo, w1) \<Rightarrow>
              call (RemoveEntryFromDirectory (podWallet extendedInfo) (path pathInfo)
                      (filename pathInfo) True)
                (removeEntryFromDirectory E (connection accountData) (podWallet extendedInfo)
                      (path pathInfo) (filename pathInfo) True) w1)))"

definition share ::
  "('s, 'x, 'z) env \<Rightarrow> 'x AccountData_scheme \<Rightarrow> string \<Rightarrow> string \<Rightarrow> 's world
     \<Rightarrow> (error + Reference) \<times> 's world" where
  "share E accountData pod fullPath w =
     (if \<not> assertAccount E accountData then (Inl NotAuthenticated, w)
      else if \<not> assertFullPathWithName E fullPath then (Inl InvalidPath, w)
      else if \<not> assertPodName E pod then (Inl InvalidPodName, w)
      else
        (let conn = connection accountData in
         (case call (GetExtendedPodsList pod)
                 (getExtendedPodsListByAccountData E accountData pod) w of
            (Inl e, w1) \<Rightarrow> (Inl e, w1)
          | (Inr extendedInfo, w1) \<Rightarrow>
             (case call (GetRawMetadata fullPath (extPodAddress extendedInfo))
                     (getRawMetadata E (bee conn) fullPath (extPodAddress extendedInfo)) w1 of
                (Inl e, w2) \<Rightarrow> (Inl e, w2)
              | (Inr m, w2) \<Rightarrow>
                  if \<not> assertRawFileMetadata E m then (Inl CorruptMetadata, w2)
                  else
                    upload UploadShareInfo E conn
                      (stringToBytes E
                         (JSON_stringify E (createFileShareInfo E m (extPodAddress extendedInfo))))
                      w2))))"

subsection \<open>The shared-file operations\<close>

definition getSharedInfo ::
  "('s, 'x, 'z) env \<Rightarrow> 'x AccountData_scheme \<Rightarrow> string \<Rightarrow> 's world
     \<Rightarrow> (error + 'z FileShareInfo) \<times> 's world" where
  "getSharedInfo E accountData ref w =
     (if \<not> assertEncryptedReference E ref then (Inl InvalidReference, w)
      else call (GetSharedFileInfo ref)
             (getSharedFileInfo E (bee (connection accountData)) ref) w)"

text \<open>
  Modelled from the spec: \<^verbatim>\<open>updateFileMetadata\<close> is not in file.ts. The spec has it
  rewrite the pod name, the path, the file name and the pod address of the metadata and
  keep the content fields. (The spec lets an import refresh \<open>accessTime\<close> and
  \<open>modificationTime\<close>; nothing below depends on these two.)
\<close>

definition updateFileMetadata ::
  "FileMetadata \<Rightarrow> string \<Rightarrow> string \<Rightarrow> string \<Rightarrow> EthAddress \<Rightarrow> FileMetadata" where
  "updateFileMetadata m pod fpath fname addr =
     m\<lparr>podName := pod, filePath := fpath, fileName := fname, podAddress := addr\<rparr>"

text \<open>\<^verbatim>\<open>options?.name ?? sharedInfo.meta.file_name\<close>\<close>

definition receive_name :: "FileReceiveOptions option \<Rightarrow> string \<Rightarrow> string" where
  "receive_name opts original =
     (case opts of None \<Rightarrow> original
      | Some d \<Rightarrow> (case name_opt d of None \<Rightarrow> original | Some n \<Rightarrow> n))"

definition saveShared ::
  "('s, 'x, 'z) env \<Rightarrow> 'x AccountData_scheme \<Rightarrow> string \<Rightarrow> string \<Rightarrow> string
     \<Rightarrow> FileReceiveOptions option \<Rightarrow> 's world \<Rightarrow> (error + FileMetadata) \<times> 's world" where
  "saveShared E accountData pod parentPath ref opts w =
     (if \<not> assertPodName E pod then (Inl InvalidPodName, w)
      else
        (case getSharedInfo E accountData ref w of
           (Inl e, w1) \<Rightarrow> (Inl e, w1)
         | (Inr sharedInfo, w1) \<Rightarrow>
            (let conn = connection accountData in
             (case call (GetExtendedPodsList pod)
                     (getExtendedPodsListByAccountData E accountData pod) w1 of
                (Inl e, w2) \<Rightarrow> (Inl e, w2)
              | (Inr extendedInfo, w2) \<Rightarrow>
                 (let m0 = rawFileMetadataToFileMetadata E (meta sharedInfo);
                      fname = receive_name opts (file_name (meta sharedInfo));
                      m = updateFileMetadata m0 pod parentPath fname (extPodAddress extendedInfo);
                      fullPath = combine E parentPath fname
                  in
                  (case call (AddEntryToDirectory (podWallet extendedInfo) parentPath fname True)
                          (addEntryToDirectory E conn (podWallet extendedInfo) parentPath fname
                             True) w2 of
                     (Inl e, w3) \<Rightarrow> (Inl e, w3)
                   | (Inr u, w3) \<Rightarrow>
                      (case call (WriteFeedData fullPath (getFileMetadataRawBytes E m)
                                    (privateKey (podWallet extendedInfo)))
                              (writeFeedData E conn fullPath (getFileMetadataRawBytes E m)
                                    (privateKey (podWallet extendedInfo))) w3 of
                         (Inl e, w4) \<Rightarrow> (Inl e, w4)
                       | (Inr u', w4) \<Rightarrow> (Inr m, w4))))))))"

definition downloadShared ::
  "('s, 'x, 'z) env \<Rightarrow> 'x AccountData_scheme \<Rightarrow> string \<Rightarrow> 's world
     \<Rightarrow> (error + bytes) \<times> 's world" where
  "downloadShared E accountData fileReference w =
     (case getSharedInfo E accountData fileReference w of
        (Inl e, w1) \<Rightarrow> (Inl e, w1)
      | (Inr info, w1) \<Rightarrow>
         (case call (DownloadData (combine E (file_path (meta info)) (file_name (meta info)))
                       (prepareEthAddress E (source_address info)))
                 (handler_downloadData E (bee (connection accountData))
                       (combine E (file_path (meta info)) (file_name (meta info)))
                       (prepareEthAddress E (source_address info))
                       (connection_downloadOptions (connection accountData))) w1 of
            (Inl e, w2) \<Rightarrow> (Inl e, w2)
          | (Inr d, w2) \<Rightarrow> (Inr (wrapBytesWithHelpers E d), w2)))"

definition downloadFromSharedPod ::
  "('s, 'x, 'z) env \<Rightarrow> 'x AccountData_scheme \<Rightarrow> string \<Rightarrow> string \<Rightarrow> 's world
     \<Rightarrow> (error + bytes) \<times> 's world" where
  "downloadFromSharedPod E accountData podReference fullPath w =
     (if \<not> assertEncryptedReference E podReference then (Inl InvalidReference, w)
      else
        (case call (GetSharedPodInfo podReference)
                (getSharedPodInfo E (bee (connection accountData)) podReference) w of
           (Inl e, w1) \<Rightarrow> (Inl e, w1)
         | (Inr info, w1) \<Rightarrow>
            (case call (DownloadData fullPath (prepareEthAddress E (pod_address info)))
                    (handler_downloadData E (bee (connection accountData)) fullPath
                          (prepareEthAddress E (pod_address info))
                          (connection_downloadOptions (connection accountData))) w1 of
               (Inl e, w2) \<Rightarrow> (Inl e, w2)
             | (Inr d, w2) \<Rightarrow> (Inr (wrapBytesWithHelpers E d), w2))))"

section \<open>Notions for the statements\<close>

text \<open>
  Names for the proofs: the \<open>j\<close>-th slice that the loop cuts, the descriptor it pushes
  for it, and the event it leaves in the trace.
\<close>

definition blockSlice :: "bytes \<Rightarrow> int \<Rightarrow> nat \<Rightarrow> bytes" where
  "blockSlice data bsz j = js_slice data (int j * bsz) ((int j + 1) * bsz)"

definition descriptor :: "('s, 'x, 'z) env \<Rightarrow> bytes \<Rightarrow> int \<Rightarrow> nat \<times> Reference \<Rightarrow> Block" where
  "descriptor E data bsz jr =
     \<lparr>name = generateBlockName E (fst jr),
      size_blk = int (length (blockSlice data bsz (fst jr))),
      compressedSize = int (length (blockSlice data bsz (fst jr))),
      reference = snd jr\<rparr>"

definition blockEvent :: "bytes \<Rightarrow> int \<Rightarrow> nat \<times> Reference \<Rightarrow> event" where
  "blockEvent data bsz jr = UploadBlock (blockSlice data bsz (fst jr)) (Some (snd jr))"

definition loop_post ::
  "('s, 'x, 'z) env \<Rightarrow> bytes \<Rightarrow> int \<Rightarrow> jsnum \<Rightarrow> nat \<Rightarrow> Block list \<Rightarrow> 's world
     \<Rightarrow> (error + Block list) \<times> 's world \<Rightarrow> bool" where
  "loop_post E data bsz cnt i acc w y =
     (\<exists>rs. (\<forall>j<length rs. js_less (i + j) cnt) \<and>
        (case fst y of
           Inr blks \<Rightarrow>
             trace (snd y) = trace w @ map (blockEvent data bsz) (enumerate i rs) \<and>
             blks = acc @ map (descriptor E data bsz) (enumerate i rs) \<and>
             \<not> js_less (i + length rs) cnt
         | Inl e \<Rightarrow>
             trace (snd y) = trace w @ map (blockEvent data bsz) (enumerate i rs)
                @ [UploadBlock (blockSlice data bsz (i + length rs)) None] \<and>
             js_less (i + length rs) cnt \<and> (\<exists>m. e = Remote m)))"

text \<open>The bytes of the block uploads in a trace, in the order of the uploads.\<close>

fun uploadedBlocks :: "event list \<Rightarrow> bytes list" where
  "uploadedBlocks [] = []"
| "uploadedBlocks (UploadBlock b r # es) = b # uploadedBlocks es"
| "uploadedBlocks (e # es) = uploadedBlocks es"

text \<open>
  The metadata that a successful upload returns, and the events it adds to the trace,
  given what the collaborators returned: the pod \<open>info\<close>, the clock reading \<open>now\<close>,
  the references \<open>rs\<close> of the blocks and the reference \<open>mref\<close> of the manifest.
\<close>

definition upload_meta ::
  "('s, 'x, 'z) env \<Rightarrow> string \<Rightarrow> string \<Rightarrow> bytes \<Rightarrow> DataUploadOptions option \<Rightarrow> ExtendedInfo
     \<Rightarrow> int \<Rightarrow> Reference \<Rightarrow> FileMetadata" where
  "upload_meta E pod fullPath data opts info now mref =
     \<lparr>version = META_VERSION E,
      podAddress = extPodAddress info,
      podName = pod,
      filePath = path (extractPathInfo E fullPath),
      fileName = filename (extractPathInfo E fullPath),
      fileSize = int (length data),
      blockSize = merged_blockSize opts,
      contentType = merged_contentType opts,
      compression = [],
      creationTime = now,
      accessTime = now,
      modificationTime = now,
      blocksReference = mref\<rparr>"

definition upload_tail ::
  "('s, 'x, 'z) env \<Rightarrow> string \<Rightarrow> string \<Rightarrow> bytes \<Rightarrow> DataUploadOptions option \<Rightarrow> ExtendedInfo
     \<Rightarrow> int \<Rightarrow> Reference list \<Rightarrow> Reference \<Rightarrow> event list" where
  "upload_tail E pod fullPath data opts info now rs mref =
     [UploadManifest
        (stringToBytes E (blocksToManifest E
           \<lparr>blocks = map (descriptor E data (merged_blockSize opts)) (enumerate 0 rs)\<rparr>))
        (Some mref),
      AddEntryToDirectory (podWallet info) (path (extractPathInfo E fullPath))
        (filename (extractPathInfo E fullPath)) True,
      WriteFeedData fullPath
        (getFileMetadataRawBytes E (upload_meta E pod fullPath data opts info now mref))
        (privateKey (podWallet info))]"

definition upload_events ::
  "('s, 'x, 'z) env \<Rightarrow> string \<Rightarrow> string \<Rightarrow> bytes \<Rightarrow> DataUploadOptions option \<Rightarrow> ExtendedInfo
     \<Rightarrow> int \<Rightarrow> Reference list \<Rightarrow> Reference \<Rightarrow> event list" where
  "upload_events E pod fullPath data opts info now rs mref =
     [GetExtendedPodsList pod, Now now]
     @ map (blockEvent data (merged_blockSize opts)) (enumerate 0 rs)
     @ upload_tail E pod fullPath data opts info now rs mref"

subsection \<open>The order of the remote steps\<close>

text \<open>
  The order in which an upload may leave events: the pod lookup, the clock, then block
  uploads, each of which has returned before the next event; the manifest only after them;
  the directory entry only after the manifest has a reference; the feed last. A failed
  upload ends the run.
\<close>

datatype phase = Start | PodKnown | Uploading | ManifestStored | Registered | Published | Aborted

fun order_step :: "phase \<Rightarrow> event \<Rightarrow> phase option" where
  "order_step Start (GetExtendedPodsList p) = Some PodKnown"
| "order_step PodKnown (Now t) = Some Uploading"
| "order_step Uploading (UploadBlock b (Some r)) = Some Uploading"
| "order_step Uploading (UploadBlock b None) = Some Aborted"
| "order_step Uploading (UploadManifest b (Some r)) = Some ManifestStored"
| "order_step Uploading (UploadManifest b None) = Some Aborted"
| "order_step ManifestStored (AddEntryToDirectory wl p n f) = Some Registered"
| "order_step Registered (WriteFeedData p b k) = Some Published"
| "order_step q e = None"

fun order_run :: "phase \<Rightarrow> event list \<Rightarrow> phase option" where
  "order_run q [] = Some q"
| "order_run q (e # es) = (case order_step q e of None \<Rightarrow> None | Some q' \<Rightarrow> order_run q' es)"

text \<open>The kinds of events that the claims name.\<close>

fun is_store_write :: "event \<Rightarrow> bool" where
  "is_store_write (UploadBlock b r) = True"
| "is_store_write (UploadManifest b r) = True"
| "is_store_write (UploadShareInfo b r) = True"
| "is_store_write e = False"

fun is_feed_publish :: "event \<Rightarrow> bool" where
  "is_feed_publish (WriteFeedData p b k) = True"
| "is_feed_publish e = False"

fun is_entry_removal :: "event \<Rightarrow> bool" where
  "is_entry_removal (RemoveEntryFromDirectory wl p n f) = True"
| "is_entry_removal e = False"

subsection \<open>An instance of the collaborators\<close>

text \<open>
  A small stand-in for the imported functions, on which the operations run to a value:
  the collaborator state is a counter that every remote call advances and the clock reads;
  the reference of an upload is as long as the bytes stored; the extension slot of the
  account says whether a session is open.
\<close>

definition demo_info :: ExtendedInfo where
  "demo_info =
     \<lparr>extPodAddress = ''0xpod'', podWallet = \<lparr>address = ''0xpod'', privateKey = ''key''\<rparr>\<rparr>"

definition shared_info :: "unit FileShareInfo" where
  "shared_info = \<lparr>meta = \<lparr>file_path = ''/'', file_name = ''a''\<rparr>, source_address = ''0xsharer''\<rparr>"

definition demo :: "(nat, bool, unit) env" where
  "demo =
     \<lparr>assertAccount = (\<lambda>a. AccountData.more a),
      assertPodName = (\<lambda>p. p \<noteq> []),
      assertFullPathWithName = (\<lambda>p. p \<noteq> []),
      assertEncryptedReference = (\<lambda>r. length r = 128),
      assertRawFileMetadata = (\<lambda>m. True),
      META_VERSION = ''2'',
      extractPathInfo = (\<lambda>p. \<lparr>path = take 1 p, filename = drop 1 p\<rparr>),
      combine = (\<lambda>p n. p @ n),
      stringToBytes = map of_char,
      wrapBytesWithHelpers = (\<lambda>b. b),
      prepareEthAddress = (\<lambda>a. a),
      generateBlockName = (\<lambda>i. ''block-'' @ replicate i (CHR ''i'')),
      blocksToManifest = (\<lambda>b. concat (map reference (blocks b))),
      getFileMetadataRawBytes = (\<lambda>m. map of_char (blocksReference m)),
      rawFileMetadataToFileMetadata =
        (\<lambda>r. \<lparr>version = ''2'', podAddress = ''0xsharer'', podName = ''theirs'',
              filePath = file_path r, fileName = file_name r, fileSize = 5, blockSize = 2,
              contentType = [], compression = [], creationTime = 7, accessTime = 8,
              modificationTime = 9, blocksReference = ''ffee''\<rparr>),
      createFileShareInfo = (\<lambda>m a. \<lparr>meta = m, source_address = a\<rparr>),
      JSON_stringify = (\<lambda>i. file_name (meta i) @ source_address i),
      getUnixTimestamp = (\<lambda>s. int s),
      getExtendedPodsListByAccountData =
        (\<lambda>a p s. (Inr demo_info, s + 1)),
      uploadBytes = (\<lambda>c b s. (Inr (replicate (length b) (CHR ''f'')), s + 1)),
      writeFeedData = (\<lambda>c p b k s. (Inr (), s + 1)),
      addEntryToDirectory = (\<lambda>c wl p n f s. (Inr (), s + 1)),
      removeEntryFromDirectory = (\<lambda>c wl p n f s. (Inr (), s + 1)),
      getRawMetadata = (\<lambda>b p a s. (Inr \<lparr>file_path = ''/'', file_name = ''a''\<rparr>, s + 1)),
      getSharedFileInfo = (\<lambda>b r s. (Inr shared_info, s + 1)),
      getSharedPodInfo = (\<lambda>b r s. (Inr \<lparr>pod_address = ''0xpod''\<rparr>, s + 1)),
      handler_downloadData = (\<lambda>b p a d s. (Inr [1, 2, 3, 4, 5], s + 1))\<rparr>"

definition demo_conn :: Connection where
  "demo_conn = \<lparr>bee = Bee ''http://localhost:1633'', options = None\<rparr>"

definition alice :: "bool AccountData_scheme" where
  "alice = \<lparr>connection = demo_conn, \<dots> = True\<rparr>"

definition guest :: "bool AccountData_scheme" where
  "guest = \<lparr>connection = demo_conn, \<dots> = False\<rparr>"

definition w0 :: "nat world" where
  "w0 = \<lparr>trace = [], ext = 0\<rparr>"

definition opts2 :: "DataUploadOptions option" where
  "opts2 = Some \<lparr>blockSize_opt = Some 2, contentType_opt = None\<rparr>"

text \<open>The payload of 2,500,000 bytes, and what its upload with the default options gives.\<close>

definition big_payload :: payload where
  "big_payload = Bytes (replicate 2500000 0)"

definition big_meta :: FileMetadata where
  "big_meta =
     \<lparr>version = ''2'', podAddress = ''0xpod'', podName = ''pod'',
      filePath = ''/'', fileName = ''a'', fileSize = 2500000, blockSize = 1000000,
      contentType = [], compression = [], creationTime = 1,
      accessTime = 1, modificationTime = 1,
      blocksReference = replicate 2500000 (CHR ''f'')\<rparr>"

definition big_world :: "nat world" where
  "big_world =
     \<lparr>trace =
        [GetExtendedPodsList ''pod'', Now 1,
         UploadBlock (replicate 1000000 0) (Some (replicate 1000000 (CHR ''f''))),
         UploadBlock (replicate 1000000 0) (Some (replicate 1000000 (CHR ''f''))),
         UploadBlock (replicate 500000 0) (Some (replicate 500000 (CHR ''f''))),
         UploadManifest (replicate 2500000 102) (Some (replicate 2500000 (CHR ''f''))),
         AddEntryToDirectory (podWallet demo_info) ''/'' ''a'' True,
         WriteFeedData ''/a'' (replicate 2500000 102) ''key''],
      ext = 7\<rparr>"

text \<open>The same for five bytes in blocks of two.\<close>

definition small_meta :: FileMetadata where
  "small_meta =
     \<lparr>version = ''2'', podAddress = ''0xpod'', podName = ''pod'',
      filePath = ''/'', fileName = ''a'', fileSize = 5, blockSize = 2,
      contentType = [], compression = [], creationTime = 1,
      accessTime = 1, modificationTime = 1,
      blocksReference = ''fffff''\<rparr>"

definition small_world :: "nat world" where
  "small_world =
     \<lparr>trace =
        [GetExtendedPodsList ''pod'', Now 1, UploadBlock [1, 2] (Some ''ff''),
         UploadBlock [3, 4] (Some ''ff''), UploadBlock [5] (Some ''f''),
         UploadManifest [102, 102, 102, 102, 102] (Some ''fffff''),
         AddEntryToDirectory (podWallet demo_info) ''/'' ''a'' True,
         WriteFeedData ''/a'' [102, 102, 102, 102, 102] ''key''],
      ext = 7\<rparr>"

text \<open>A negative block size, and what the upload of three bytes gives with it.\<close>

definition opts_neg :: "DataUploadOptions option" where
  "opts_neg = Some \<lparr>blockSize_opt = Some (- 1), contentType_opt = None\<rparr>"

definition neg_meta :: FileMetadata where
  "neg_meta =
     \<lparr>version = ''2'', podAddress = ''0xpod'', podName = ''pod'',
      filePath = ''/'', fileName = ''a'', fileSize = 3, blockSize = - 1,
      contentType = [], compression = [], creationTime = 1,
      accessTime = 1, modificationTime = 1, blocksReference = []\<rparr>"

definition neg_world :: "nat world" where
  "neg_world =
     \<lparr>trace =
        [GetExtendedPodsList ''pod'', Now 1, UploadManifest [] (Some []),
         AddEntryToDirectory (podWallet demo_info) ''/'' ''a'' True,
         WriteFeedData ''/a'' [] ''key''],
      ext = 4\<rparr>"

text \<open>A reference of the shape that the instance accepts.\<close>

definition ref128 :: string where
  "ref128 = replicate 128 (CHR ''a'')"

text \<open>What the import of the shared file into the pod of the guest gives.\<close>

definition saved_meta :: FileMetadata where
  "saved_meta =
     \<lparr>version = ''2'', podAddress = ''0xpod'', podName = ''pod'',
      filePath = ''/docs/'', fileName = ''b'', fileSize = 5, blockSize = 2,
      contentType = [], compression = [], creationTime = 7, accessTime = 8,
      modificationTime = 9, blocksReference = ''ffee''\<rparr>"

definition saved_world :: "nat world" where
  "saved_world =
     \<lparr>trace =
        [GetSharedFileInfo ref128, GetExtendedPodsList ''pod'',
         AddEntryToDirectory (podWallet demo_info) ''/docs/'' ''b'' True,
         WriteFeedData ''/docs/b'' [102, 102, 101, 101] ''key''],
      ext = 4\<rparr>"

definition rename_b :: "FileReceiveOptions option" where
  "rename_b = Some \<lparr>name_opt = Some ''b''\<rparr>"

section \<open>Properties\<close>

subsection \<open>The collaborator calls and the block loop\<close>

lemma call_trace:
  "call ev f w = (r, w1) \<Longrightarrow> trace w1 = trace w @ [ev] \<and> (\<exists>r0. f (ext w) = (r0, ext w1))"
  by (auto simp: call_def split: prod.splits sum.splits)

lemma upload_Inr:
  "upload mk E conn b w = (Inr r, w1) \<Longrightarrow>
     trace w1 = trace w @ [mk b (Some r)] \<and> uploadBytes E conn b (ext w) = (Inr r, ext w1)"
  by (auto simp: upload_def split: prod.splits sum.splits)

lemma upload_Inl:
  "upload mk E conn b w = (Inl e, w1) \<Longrightarrow>
     trace w1 = trace w @ [mk b None] \<and> (\<exists>m. e = Remote m \<and> uploadBytes E conn b (ext w) = (Inl m, ext w1))"
  by (auto simp: upload_def split: prod.splits sum.splits)

lemma call_Inr:
  "call ev f w = (Inr x, w1) \<Longrightarrow> trace w1 = trace w @ [ev] \<and> f (ext w) = (Inr x, ext w1)"
  by (auto simp: call_def split: prod.splits sum.splits)

lemma call_Inl:
  "call ev f w = (Inl e, w1) \<Longrightarrow>
     trace w1 = trace w @ [ev] \<and> (\<exists>m. e = Remote m \<and> f (ext w) = (Inl m, ext w1))"
  by (auto simp: call_def split: prod.splits sum.splits)

lemma uploadBlocks_post:
  assumes "uploadBlocks E conn data bsz cnt i acc w = Some y"
  shows "loop_post E data bsz cnt i acc w y"
  using assms
proof (induction rule: uploadBlocks.raw_induct[rotated, consumes 1])
  case (1 f E conn data bsz cnt i acc w y)
  show ?case
  proof (cases "js_less i cnt")
    case False
    with 1(2) have "y = (Inr acc, w)" by simp
    with False show ?thesis
      unfolding loop_post_def by (intro exI[of _ "[]"]) simp
  next
    case True
    let ?b = "blockSlice data bsz i"
    obtain res w1 where up: "upload UploadBlock E conn ?b w = (res, w1)"
      by (cases "upload UploadBlock E conn ?b w")
    show ?thesis
    proof (cases res)
      case (Inl e)
      with 1(2) True up have y: "y = (Inl e, w1)"
        by (simp add: blockSlice_def)
      from upload_Inl[OF up[unfolded Inl]] y True show ?thesis
        unfolding loop_post_def by (intro exI[of _ "[]"]) auto
    next
      case (Inr r)
      let ?acc' = "acc @ [descriptor E data bsz (i, r)]"
      from 1(2) True up Inr
      have rec: "f E conn data bsz cnt (i + 1) ?acc' w1 = Some y"
        by (simp add: blockSlice_def descriptor_def Let_def)
      from 1(1)[OF rec] obtain rs where
        a: "\<forall>j<length rs. js_less (i + 1 + j) cnt" and
        b: "case fst y of
           Inr blks \<Rightarrow>
             trace (snd y) = trace w1 @ map (blockEvent data bsz) (enumerate (i + 1) rs) \<and>
             blks = ?acc' @ map (descriptor E data bsz) (enumerate (i + 1) rs) \<and>
             \<not> js_less (i + 1 + length rs) cnt
         | Inl e \<Rightarrow>
             trace (snd y) = trace w1 @ map (blockEvent data bsz) (enumerate (i + 1) rs)
                @ [UploadBlock (blockSlice data bsz (i + 1 + length rs)) None] \<and>
             js_less (i + 1 + length rs) cnt \<and> (\<exists>m. e = Remote m)"
        unfolding loop_post_def by blast
      from upload_Inr[OF up[unfolded Inr]]
      have tr: "trace w1 = trace w @ [blockEvent data bsz (i, r)]"
        by (simp add: blockEvent_def)
      have a': "\<forall>j<length (r # rs). js_less (i + j) cnt"
      proof (intro allI impI)
        fix j assume "j < length (r # rs)"
        then show "js_less (i + j) cnt"
          using a True by (cases j) auto
      qed
      show ?thesis
        unfolding loop_post_def
        apply (rule exI[of _ "r # rs"])
        apply (rule conjI[OF a'])
        using b tr
        apply (auto split: sum.splits)
        done
    qed
  qed
qed

lemma uploadBlocks_returns:
  "\<exists>y. uploadBlocks E conn data bsz (Fin n) i acc w = Some y"
proof (induction "nat (n - int i)" arbitrary: i acc w)
  case 0
  then have "\<not> js_less i (Fin n)" by simp
  then show ?case by (subst uploadBlocks.simps) simp
next
  case (Suc k)
  then have lt: "js_less i (Fin n)" by simp
  let ?b = "js_slice data (int i * bsz) ((int i + 1) * bsz)"
  obtain res w1 where up: "upload UploadBlock E conn ?b w = (res, w1)"
    by (cases "upload UploadBlock E conn ?b w")
  show ?case
  proof (cases res)
    case (Inl e)
    with up lt show ?thesis by (subst uploadBlocks.simps) simp
  next
    case (Inr r)
    from Suc(2) have "k = nat (n - int (i + 1))" by simp
    from Suc(1)[OF this] up lt Inr show ?thesis
      by (subst uploadBlocks.simps) (simp add: Let_def)
  qed
qed

subsection \<open>Slices\<close>

lemma js_slice_nonneg:
  "0 \<le> a \<Longrightarrow> a \<le> b \<Longrightarrow> js_slice xs a b = take (nat b - nat a) (drop (nat a) xs)"
  unfolding js_slice_def Let_def
  by (cases "a \<le> int (length xs)"; cases "b \<le> int (length xs)")
     (auto simp: min_def nat_diff_distrib)

lemma blockSlice_pos:
  assumes "0 < bsz"
  shows "blockSlice data bsz j = take (nat bsz) (drop (j * nat bsz) data)"
proof -
  have a: "0 \<le> int j * bsz" using assms by simp
  have b: "int j * bsz \<le> (int j + 1) * bsz" using assms by (simp add: algebra_simps)
  have c: "nat (int j * bsz) = j * nat bsz" using assms by (simp add: nat_mult_distrib)
  have d: "nat ((int j + 1) * bsz) = j * nat bsz + nat bsz"
    using assms by (simp add: nat_mult_distrib nat_add_distrib algebra_simps)
  show ?thesis
    unfolding blockSlice_def js_slice_nonneg[OF a b] c d by simp
qed

lemma concat_take_drop:
  "concat (map (\<lambda>j. take n (drop (j * n) xs)) [0..<k]) = take (k * n) xs"
proof (induction k)
  case 0
  then show ?case by simp
next
  case (Suc k)
  have "take (k * n) xs @ take n (drop (k * n) xs) = take (k * n + n) xs"
    by (simp add: take_add)
  with Suc show ?case by (simp add: add.commute)
qed

lemma ceil_div_bounds:
  fixes a n :: int
  assumes "0 < n"
  shows "(- ((- a) div n) - 1) * n < a" and "a \<le> - ((- a) div n) * n"
proof -
  define q where "q = (- a) div n"
  define r where "r = (- a) mod n"
  have e: "- a = q * n + r" unfolding q_def r_def by simp
  have m: "0 \<le> r" "r < n" using assms unfolding r_def by simp_all
  have "(- q - 1) * n = - (q * n) - n" by (simp add: algebra_simps)
  with e m show "(- ((- a) div n) - 1) * n < a" unfolding q_def[symmetric] by linarith
  have "- q * n = - (q * n)" by simp
  with e m show "a \<le> - ((- a) div n) * n" unfolding q_def[symmetric] by linarith
qed

lemma uploadedBlocks_blockEvents:
  "uploadedBlocks (map (blockEvent data bsz) (enumerate i rs)) =
     map (blockSlice data bsz) [i..<i + length rs]"
proof (induction rs arbitrary: i)
  case Nil
  then show ?case by simp
next
  case (Cons r rs)
  have "[i..<i + length (r # rs)] = i # [Suc i..<Suc i + length rs]"
    using upt_conv_Cons[of i "i + length (r # rs)"] by simp
  with Cons[of "Suc i"] show ?case by (simp add: blockEvent_def)
qed

lemma uploadedBlocks_append:
  "uploadedBlocks (xs @ ys) = uploadedBlocks xs @ uploadedBlocks ys"
  by (induction xs rule: uploadedBlocks.induct) simp_all

lemma loop_count:
  assumes "\<forall>j<k. js_less j (Fin n)" and "\<not> js_less k (Fin n)"
  shows "k = nat n"
proof (cases k)
  case 0
  with assms show ?thesis by simp
next
  case (Suc k')
  with assms(1) have "js_less k' (Fin n)" by simp
  with assms(2) Suc show ?thesis by simp
qed

lemma sizes_concrete:
  assumes "length (data :: bytes) = 2500000"
  shows "map length (map (blockSlice data 1000000) [0..<3]) = [1000000, 1000000, 500000]"
proof -
  have "[0..<3] = [0, 1, 2::nat]" by (simp add: upt_rec)
  then show ?thesis using assms by (simp add: blockSlice_pos)
qed

lemma ceil_nat_bounds:
  fixes bsz :: int and len :: nat
  assumes "0 < bsz"
  defines "c \<equiv> nat (- ((- int len) div bsz))" and "n \<equiv> nat bsz"
  shows "len \<le> c * n" and "0 < c \<Longrightarrow> (c - 1) * n < len"
    and "nat \<lceil>real len / real n\<rceil> = c"
proof -
  let ?q = "- ((- int len) div bsz)"
  have up: "int len \<le> ?q * bsz" and lo: "(?q - 1) * bsz < int len"
    using ceil_div_bounds[OF assms(1), of "int len"] by simp_all
  have q0: "0 \<le> ?q"
  proof (rule ccontr)
    assume "\<not> 0 \<le> ?q"
    then have "?q \<le> - 1" by simp
    then have "?q * bsz \<le> - 1 * bsz" using assms(1) by (intro mult_right_mono) simp_all
    with up assms(1) show False by simp
  qed
  have cq: "int c = ?q" unfolding c_def using q0 by simp
  have nb: "int n = bsz" unfolding n_def using assms(1) by simp
  have "int len \<le> int (c * n)" using up cq nb by simp
  then show "len \<le> c * n" by linarith
  show "(c - 1) * n < len" if "0 < c"
  proof -
    from that have "int (c - 1) = ?q - 1" using cq by simp
    then have "int ((c - 1) * n) = (?q - 1) * bsz" using nb by simp
    with lo have "int ((c - 1) * n) < int len" by simp
    then show ?thesis by linarith
  qed
  have "real len / real n = of_int (int len) / of_int bsz"
    using nb by (metis of_int_of_nat_eq)
  then have "\<lceil>real len / real n\<rceil> = ?q"
    by (simp only: ceiling_divide_eq_div)
  then show "nat \<lceil>real len / real n\<rceil> = c" unfolding c_def by simp
qed

lemma blocks_of_payload:
  fixes p :: bytes
  assumes "0 < bsz"
  defines "c \<equiv> nat (- ((- int (length p)) div bsz))" and "n \<equiv> nat bsz"
  defines "bs \<equiv> map (blockSlice p bsz) [0..<c]"
  shows "length bs = nat \<lceil>real (length p) / real n\<rceil>"
    and "\<forall>k. k + 1 < length bs \<longrightarrow> length (bs ! k) = n"
    and "bs \<noteq> [] \<longrightarrow> 1 \<le> length (last bs) \<and> length (last bs) \<le> n"
    and "concat bs = p"
    and "sum_list (map length bs) = length p"
proof -
  note B = ceil_nat_bounds[OF assms(1), of "length p", folded c_def n_def]
  have n0: "0 < n" unfolding n_def using assms(1) by simp
  have bs: "bs = map (\<lambda>j. take n (drop (j * n) p)) [0..<c]"
    unfolding bs_def n_def using blockSlice_pos[OF assms(1)] by simp
  show "length bs = nat \<lceil>real (length p) / real n\<rceil>"
    using B(3) by (simp add: bs)
  show "\<forall>k. k + 1 < length bs \<longrightarrow> length (bs ! k) = n"
  proof (intro allI impI)
    fix k assume k: "k + 1 < length bs"
    then have kc: "k + 1 \<le> c - 1" and c0: "0 < c" by (simp_all add: bs)
    from kc have "(k + 1) * n \<le> (c - 1) * n" by (rule mult_le_mono1)
    with B(2)[OF c0] have "k * n + n < length p" by simp
    with k show "length (bs ! k) = n" by (simp add: bs)
  qed
  show "bs \<noteq> [] \<longrightarrow> 1 \<le> length (last bs) \<and> length (last bs) \<le> n"
  proof
    assume "bs \<noteq> []"
    then have c0: "0 < c" by (simp add: bs)
    then have l: "last bs = take n (drop ((c - 1) * n) p)"
      by (simp add: bs last_map last_upt)
    from B(2)[OF c0] show "1 \<le> length (last bs) \<and> length (last bs) \<le> n"
      using n0 by (simp add: l)
  qed
  show cc: "concat bs = p"
    using B(1) by (simp add: bs concat_take_drop)
  have "sum_list (map length bs) = length (concat bs)"
    by (simp add: length_concat)
  with cc show "sum_list (map length bs) = length p" by simp
qed

lemma enumerate_fst: "map fst (enumerate i rs) = [i..<i + length rs]"
  by (simp add: enumerate_eq_zip)

lemma new_events:
  "trace w' = trace w @ evs \<Longrightarrow> drop (length (trace w)) (trace w') = evs"
  by simp

lemma uploadedBlocks_upload_events:
  "uploadedBlocks (upload_events E pod fp data opts info now rs mref) =
     map (blockSlice data (merged_blockSize opts)) [0..<length rs]"
  using uploadedBlocks_blockEvents[of data "merged_blockSize opts" 0 rs]
  by (simp add: upload_events_def upload_tail_def uploadedBlocks_append)

subsection \<open>A successful upload\<close>

lemma uploadData_success:
  assumes "uploadData E a pod fp d opts w = Some (Inr m, w')"
  shows "\<exists>info s1 rs mref.
           assertAccount E a \<and> assertPodName E pod \<and> assertFullPathWithName E fp \<and>
           getExtendedPodsListByAccountData E a pod (ext w) = (Inr info, s1) \<and>
           (\<forall>j<length rs. js_less j (ceil_div (length (payload_bytes E d)) (merged_blockSize opts))) \<and>
           \<not> js_less (length rs) (ceil_div (length (payload_bytes E d)) (merged_blockSize opts)) \<and>
           m = upload_meta E pod fp (payload_bytes E d) opts info (getUnixTimestamp E s1) mref \<and>
           trace w' = trace w @
             upload_events E pod fp (payload_bytes E d) opts info (getUnixTimestamp E s1) rs mref"
proof -
  let ?data = "payload_bytes E d" and ?bsz = "merged_blockSize opts"
  let ?cnt = "ceil_div (length ?data) ?bsz"
  let ?pi = "extractPathInfo E fp"
  from assms have A: "assertAccount E a" "assertPodName E pod" "assertFullPathWithName E fp"
    by (auto simp: uploadData_def Let_def split: if_splits)
  obtain r1 w1 where c1:
    "call (GetExtendedPodsList pod) (getExtendedPodsListByAccountData E a pod) w = (r1, w1)"
    by (cases "call (GetExtendedPodsList pod) (getExtendedPodsListByAccountData E a pod) w")
  from assms A c1 obtain info where r1: "r1 = Inr info"
    by (cases r1) (auto simp: uploadData_def Let_def)
  let ?now = "getUnixTimestamp E (ext w1)"
  let ?w2 = "w1\<lparr>trace := trace w1 @ [Now ?now]\<rparr>"
  from assms A c1 r1 obtain y where l: "uploadBlocks E (connection a) ?data ?bsz ?cnt 0 [] ?w2 = Some y"
    by (cases "uploadBlocks E (connection a) ?data ?bsz ?cnt 0 [] ?w2")
       (auto simp: uploadData_def Let_def)
  obtain r3 w3 where y: "y = (r3, w3)" by (cases y)
  from assms A c1 r1 l y obtain blks where r3: "r3 = Inr blks"
    by (cases r3) (auto simp: uploadData_def Let_def)
  let ?mb = "stringToBytes E (blocksToManifest E \<lparr>blocks = blks\<rparr>)"
  obtain r4 w4 where c4: "upload UploadManifest E (connection a) ?mb w3 = (r4, w4)"
    by (cases "upload UploadManifest E (connection a) ?mb w3")
  from assms A c1 r1 l y r3 c4 obtain mref where r4: "r4 = Inr mref"
    by (cases r4) (auto simp: uploadData_def Let_def)
  let ?m = "upload_meta E pod fp ?data opts info ?now mref"
  let ?ev5 = "AddEntryToDirectory (podWallet info) (path ?pi) (filename ?pi) True"
  obtain r5 w5 where c5:
    "call ?ev5 (addEntryToDirectory E (connection a) (podWallet info) (path ?pi) (filename ?pi) True) w4
       = (r5, w5)"
    by (cases "call ?ev5 (addEntryToDirectory E (connection a) (podWallet info) (path ?pi) (filename ?pi) True) w4")
  from assms A c1 r1 l y r3 c4 r4 c5 obtain u where r5: "r5 = Inr u"
    by (cases r5) (auto simp: uploadData_def Let_def)
  let ?ev6 = "WriteFeedData fp (getFileMetadataRawBytes E ?m) (privateKey (podWallet info))"
  obtain r6 w6 where c6:
    "call ?ev6 (writeFeedData E (connection a) fp (getFileMetadataRawBytes E ?m)
        (privateKey (podWallet info))) w5 = (r6, w6)"
    by (cases "call ?ev6 (writeFeedData E (connection a) fp (getFileMetadataRawBytes E ?m)
        (privateKey (podWallet info))) w5")
  from assms A c1 r1 l y r3 c4 r4 c5 r5 c6 have fin: "r6 = Inr () \<and> m = ?m \<and> w' = w6"
    by (cases r6) (auto simp: uploadData_def Let_def upload_meta_def)
  from call_Inr[OF c1[unfolded r1]]
  have t1: "trace w1 = trace w @ [GetExtendedPodsList pod]"
    and g1: "getExtendedPodsListByAccountData E a pod (ext w) = (Inr info, ext w1)" by auto
  from uploadBlocks_post[OF l] y r3 obtain rs where
    rs: "\<forall>j<length rs. js_less j ?cnt" "\<not> js_less (length rs) ?cnt"
    and t3: "trace w3 = trace ?w2 @ map (blockEvent ?data ?bsz) (enumerate 0 rs)"
    and b3: "blks = map (descriptor E ?data ?bsz) (enumerate 0 rs)"
    unfolding loop_post_def by auto
  from upload_Inr[OF c4[unfolded r4]]
  have t4: "trace w4 = trace w3 @ [UploadManifest ?mb (Some mref)]" by simp
  from call_Inr[OF c5[unfolded r5]] have t5: "trace w5 = trace w4 @ [?ev5]" by simp
  from fin c6 have "call ?ev6 (writeFeedData E (connection a) fp (getFileMetadataRawBytes E ?m)
        (privateKey (podWallet info))) w5 = (Inr (), w6)" by simp
  from call_Inr[OF this] have t6: "trace w6 = trace w5 @ [?ev6]" by simp
  have tr: "trace w' = trace w @ upload_events E pod fp ?data opts info ?now rs mref"
    using fin t1 t3 t4 t5 t6 b3 by (simp add: upload_events_def upload_tail_def)
  show ?thesis
    using A g1 rs fin tr by blast
qed

lemma uploadData_returns:
  assumes "merged_blockSize opts \<noteq> 0 \<or> payload_bytes E d = []"
  shows "\<exists>y. uploadData E a pod fp d opts w = Some y"
proof -
  let ?data = "payload_bytes E d" and ?bsz = "merged_blockSize opts"
  have "uploadBlocks E c ?data ?bsz (ceil_div (length ?data) ?bsz) 0 [] v \<noteq> None" for c v
  proof (cases "?bsz = 0")
    case True
    with assms have "ceil_div (length ?data) ?bsz = NaN" by (simp add: ceil_div_def)
    then show ?thesis by (subst uploadBlocks.simps) simp
  next
    case False
    then have "ceil_div (length ?data) ?bsz = Fin (- ((- int (length ?data)) div ?bsz))"
      by (simp add: ceil_div_def)
    then show ?thesis
      using uploadBlocks_returns[of E c ?data ?bsz _ 0 "[]" v] by auto
  qed
  then show ?thesis
    unfolding uploadData_def Let_def
    by (auto split: prod.splits sum.splits option.splits) (metis option.distinct(1))
qed

lemma descriptor_nth:
  assumes "j < length rs"
  shows "map (descriptor E p bsz) (enumerate 0 rs) ! j =
           \<lparr>name = generateBlockName E j,
            size_blk = int (length (blockSlice p bsz j)),
            compressedSize = int (length (blockSlice p bsz j)),
            reference = rs ! j\<rparr>"
  using assms by (simp add: descriptor_def nth_enumerate_eq)

lemma descriptor_sizes:
  "map size_blk (map (descriptor E p bsz) (enumerate 0 rs)) =
     map (\<lambda>b. int (length b)) (map (blockSlice p bsz) [0..<length rs])"
proof -
  let ?F = "\<lambda>j. int (length (blockSlice p bsz j))"
  have e: "map fst (enumerate 0 rs) = [0..<length rs]"
    using enumerate_fst[of 0 rs] by simp
  have "map size_blk (map (descriptor E p bsz) (enumerate 0 rs)) =
          map (\<lambda>x. ?F (fst x)) (enumerate 0 rs)"
    by (simp add: descriptor_def comp_def)
  also have "\<dots> = map ?F (map fst (enumerate 0 rs))"
    by (simp only: map_map comp_def)
  also have "\<dots> = map ?F [0..<length rs]"
    by (simp only: e)
  also have "\<dots> = map (\<lambda>b. int (length b)) (map (blockSlice p bsz) [0..<length rs])"
    by (simp add: comp_def)
  finally show ?thesis .
qed

subsection \<open>An upload without blocks\<close>

lemma uploadData_no_blocks:
  assumes A: "assertAccount E a" "assertPodName E pod" "assertFullPathWithName E fp"
    and nb: "\<not> js_less 0 (ceil_div (length (payload_bytes E d)) (merged_blockSize opts))"
    and g: "getExtendedPodsListByAccountData E a pod (ext w) = (Inr info, s1)"
    and u: "uploadBytes E (connection a)
              (stringToBytes E (blocksToManifest E \<lparr>blocks = []\<rparr>)) s1 = (Inr mref, s2)"
    and ad: "addEntryToDirectory E (connection a) (podWallet info) (path (extractPathInfo E fp))
              (filename (extractPathInfo E fp)) True s2 = (Inr (), s3)"
    and wf: "writeFeedData E (connection a) fp
              (getFileMetadataRawBytes E
                 (upload_meta E pod fp (payload_bytes E d) opts info (getUnixTimestamp E s1) mref))
              (privateKey (podWallet info)) s3 = (Inr (), s4)"
  shows "uploadData E a pod fp d opts w =
           Some (Inr (upload_meta E pod fp (payload_bytes E d) opts info (getUnixTimestamp E s1) mref),
                 \<lparr>trace = trace w @
                    [GetExtendedPodsList pod, Now (getUnixTimestamp E s1),
                     UploadManifest (stringToBytes E (blocksToManifest E \<lparr>blocks = []\<rparr>)) (Some mref),
                     AddEntryToDirectory (podWallet info) (path (extractPathInfo E fp))
                       (filename (extractPathInfo E fp)) True,
                     WriteFeedData fp
                       (getFileMetadataRawBytes E
                          (upload_meta E pod fp (payload_bytes E d) opts info (getUnixTimestamp E s1) mref))
                       (privateKey (podWallet info))],
                  ext = s4\<rparr>)"
proof -
  have l: "uploadBlocks E c (payload_bytes E d) (merged_blockSize opts)
             (ceil_div (length (payload_bytes E d)) (merged_blockSize opts)) 0 [] v
           = Some (Inr [], v)" for c v
    using nb by (subst uploadBlocks.simps) simp
  show ?thesis
    using A g u ad wf
    by (simp add: uploadData_def Let_def call_def upload_def l upload_meta_def)
qed

lemma no_blocks_empty: "\<not> js_less 0 (ceil_div 0 b)"
  by (simp add: ceil_div_def)

lemma no_blocks_negative:
  assumes "b < 0"
  shows "\<not> js_less 0 (ceil_div n b)"
proof -
  have "0 \<le> (- int n) div b"
    using neg_imp_zdiv_nonneg_iff[OF assms, of "- int n"] by simp
  then show ?thesis using assms by (simp add: ceil_div_def)
qed

subsection \<open>The order of the events of an upload\<close>

lemma order_run_append:
  "order_run q (xs @ ys) = (case order_run q xs of None \<Rightarrow> None | Some q' \<Rightarrow> order_run q' ys)"
  by (induction xs arbitrary: q) (auto split: option.splits)

lemma order_run_blocks:
  "order_run Uploading (map (blockEvent data bsz) xs) = Some Uploading"
  by (induction xs) (simp_all add: blockEvent_def)

lemma uploadData_trace_order:
  assumes "uploadData E a pod fp d opts w = Some (res, w')"
  shows "\<exists>evs. trace w' = trace w @ evs \<and> order_run Start evs \<noteq> None"
  using assms unfolding uploadData_def Let_def
  by (auto split: if_splits prod.splits sum.splits option.splits
       dest!: call_Inr call_Inl upload_Inr upload_Inl uploadBlocks_post
       simp: loop_post_def order_run_append order_run_blocks)

subsection \<open>The session assertion\<close>

lemma session_asserted_first:
  assumes "\<not> assertAccount E a"
  shows "uploadData E a pod fp d opts w = Some (Inl NotAuthenticated, w)"
    and "downloadData E a pod fp w = (Inl NotAuthenticated, w)"
    and "delete E a pod fp w = (Inl NotAuthenticated, w)"
    and "share E a pod fp w = (Inl NotAuthenticated, w)"
  using assms by (simp_all add: uploadData_def downloadData_def delete_def share_def Let_def)

lemma call_not_NotAuthenticated: "fst (call ev f w) \<noteq> Inl NotAuthenticated"
  by (auto simp: call_def split: prod.splits sum.splits)

lemma getSharedInfo_not_NotAuthenticated:
  "fst (getSharedInfo E a ref w) \<noteq> Inl NotAuthenticated"
  by (simp add: getSharedInfo_def call_not_NotAuthenticated)

lemma downloadShared_not_NotAuthenticated:
  "fst (downloadShared E a ref w) \<noteq> Inl NotAuthenticated"
proof (cases "getSharedInfo E a ref w")
  case (Pair r w1)
  with getSharedInfo_not_NotAuthenticated[of E a ref w] have r: "r \<noteq> Inl NotAuthenticated"
    by simp
  show ?thesis
  proof (cases r)
    case (Inl e)
    with Pair r show ?thesis by (simp add: downloadShared_def)
  next
    case (Inr info)
    with Pair show ?thesis
      using call_not_NotAuthenticated
      by (auto simp: downloadShared_def split: prod.splits sum.splits
               dest: call_Inl)
  qed
qed

lemma downloadFromSharedPod_not_NotAuthenticated:
  "fst (downloadFromSharedPod E a ref fp w) \<noteq> Inl NotAuthenticated"
  by (auto simp: downloadFromSharedPod_def split: prod.splits sum.splits dest: call_Inl)

subsection \<open>A successful import\<close>

lemma saveShared_success:
  assumes "saveShared E a pod pp ref opts w = (Inr m, w')"
  shows "\<exists>si info s1 s2.
           assertPodName E pod \<and> assertEncryptedReference E ref \<and>
           getSharedFileInfo E (bee (connection a)) ref (ext w) = (Inr si, s1) \<and>
           getExtendedPodsListByAccountData E a pod s1 = (Inr info, s2) \<and>
           m = updateFileMetadata (rawFileMetadataToFileMetadata E (meta si)) pod pp
                 (receive_name opts (file_name (meta si))) (extPodAddress info) \<and>
           trace w' = trace w @
             [GetSharedFileInfo ref, GetExtendedPodsList pod,
              AddEntryToDirectory (podWallet info) pp (receive_name opts (file_name (meta si))) True,
              WriteFeedData (combine E pp (receive_name opts (file_name (meta si))))
                (getFileMetadataRawBytes E m) (privateKey (podWallet info))]"
proof -
  from assms have A: "assertPodName E pod"
    by (auto simp: saveShared_def split: if_splits)
  obtain r0 w1 where c0: "getSharedInfo E a ref w = (r0, w1)"
    by (cases "getSharedInfo E a ref w")
  from assms A c0 obtain si where r0: "r0 = Inr si"
    by (cases r0) (auto simp: saveShared_def)
  from c0 r0 have B: "assertEncryptedReference E ref"
    by (auto simp: getSharedInfo_def split: if_splits)
  with c0 r0 have c0': "call (GetSharedFileInfo ref) (getSharedFileInfo E (bee (connection a)) ref) w
                          = (Inr si, w1)"
    by (simp add: getSharedInfo_def)
  obtain r2 w2 where c2:
    "call (GetExtendedPodsList pod) (getExtendedPodsListByAccountData E a pod) w1 = (r2, w2)"
    by (cases "call (GetExtendedPodsList pod) (getExtendedPodsListByAccountData E a pod) w1")
  from assms A c0 r0 c2 obtain info where r2: "r2 = Inr info"
    by (cases r2) (auto simp: saveShared_def Let_def)
  let ?fname = "receive_name opts (file_name (meta si))"
  let ?m = "updateFileMetadata (rawFileMetadataToFileMetadata E (meta si)) pod pp ?fname
              (extPodAddress info)"
  let ?ev3 = "AddEntryToDirectory (podWallet info) pp ?fname True"
  obtain r3 w3 where c3:
    "call ?ev3 (addEntryToDirectory E (connection a) (podWallet info) pp ?fname True) w2 = (r3, w3)"
    by (cases "call ?ev3 (addEntryToDirectory E (connection a) (podWallet info) pp ?fname True) w2")
  from assms A c0 r0 c2 r2 c3 obtain u where r3: "r3 = Inr u"
    by (cases r3) (auto simp: saveShared_def Let_def)
  let ?ev4 = "WriteFeedData (combine E pp ?fname) (getFileMetadataRawBytes E ?m)
                (privateKey (podWallet info))"
  obtain r4 w4 where c4:
    "call ?ev4 (writeFeedData E (connection a) (combine E pp ?fname) (getFileMetadataRawBytes E ?m)
                  (privateKey (podWallet info))) w3 = (r4, w4)"
    by (cases "call ?ev4 (writeFeedData E (connection a) (combine E pp ?fname)
                  (getFileMetadataRawBytes E ?m) (privateKey (podWallet info))) w3")
  from assms A c0 r0 c2 r2 c3 r3 c4 have fin: "r4 = Inr () \<and> m = ?m \<and> w' = w4"
    by (cases r4) (auto simp: saveShared_def Let_def)
  from call_Inr[OF c0'] have t1: "trace w1 = trace w @ [GetSharedFileInfo ref]"
    and g1: "getSharedFileInfo E (bee (connection a)) ref (ext w) = (Inr si, ext w1)" by auto
  from call_Inr[OF c2[unfolded r2]] have t2: "trace w2 = trace w1 @ [GetExtendedPodsList pod]"
    and g2: "getExtendedPodsListByAccountData E a pod (ext w1) = (Inr info, ext w2)" by auto
  from call_trace[OF c3] have t3: "trace w3 = trace w2 @ [?ev3]" by simp
  from call_trace[OF c4] have t4: "trace w4 = trace w3 @ [?ev4]" by simp
  have tr: "trace w' = trace w @ [GetSharedFileInfo ref, GetExtendedPodsList pod, ?ev3,
              WriteFeedData (combine E pp ?fname) (getFileMetadataRawBytes E m)
                (privateKey (podWallet info))]"
    using fin t1 t2 t3 t4 by simp
  show ?thesis
    apply (rule exI[of _ si], rule exI[of _ info], rule exI[of _ "ext w1"], rule exI[of _ "ext w2"])
    using A B g1 g2 fin tr by (intro conjI) simp_all
qed

lemma saveShared_run:
  assumes "assertPodName E pod" and "assertEncryptedReference E ref"
    and "getSharedFileInfo E (bee (connection a)) ref (ext w) = (Inr si, s1)"
    and "getExtendedPodsListByAccountData E a pod s1 = (Inr info, s2)"
    and "addEntryToDirectory E (connection a) (podWallet info) pp
           (receive_name opts (file_name (meta si))) True s2 = (Inr (), s3)"
    and "writeFeedData E (connection a) (combine E pp (receive_name opts (file_name (meta si))))
           (getFileMetadataRawBytes E
              (updateFileMetadata (rawFileMetadataToFileMetadata E (meta si)) pod pp
                 (receive_name opts (file_name (meta si))) (extPodAddress info)))
           (privateKey (podWallet info)) s3 = (Inr (), s4)"
  shows "saveShared E a pod pp ref opts w =
           (Inr (updateFileMetadata (rawFileMetadataToFileMetadata E (meta si)) pod pp
                   (receive_name opts (file_name (meta si))) (extPodAddress info)),
            \<lparr>trace = trace w @
               [GetSharedFileInfo ref, GetExtendedPodsList pod,
                AddEntryToDirectory (podWallet info) pp
                  (receive_name opts (file_name (meta si))) True,
                WriteFeedData (combine E pp (receive_name opts (file_name (meta si))))
                  (getFileMetadataRawBytes E
                     (updateFileMetadata (rawFileMetadataToFileMetadata E (meta si)) pod pp
                        (receive_name opts (file_name (meta si))) (extPodAddress info)))
                  (privateKey (podWallet info))],
             ext = s4\<rparr>)"
  using assms by (simp add: saveShared_def getSharedInfo_def call_def Let_def)

subsection \<open>An upload that does not return\<close>

text \<open>
  With the block size zero and a payload that is not empty, \<open>blocksCount\<close> is
  \<open>Infinity\<close>: while the uploads succeed the loop goes on uploading empty blocks, and
  \<open>uploadData\<close> does not return.
\<close>

lemma uploadBlocks_PosInf_no_result:
  assumes "uploadBlocks E conn data bsz cnt i acc w = Some y"
    and "cnt = PosInf"
    and "\<forall>b s. \<exists>r s'. uploadBytes E conn b s = (Inr r, s')"
  shows False
  using assms
proof (induction rule: uploadBlocks.raw_induct[rotated, consumes 1])
  case (1 f E conn data bsz cnt i acc w y)
  let ?b = "js_slice data (int i * bsz) ((int i + 1) * bsz)"
  from 1(4) obtain r s' where u: "uploadBytes E conn ?b (ext w) = (Inr r, s')" by blast
  then have up: "upload UploadBlock E conn ?b w =
                   (Inr r, \<lparr>trace = trace w @ [UploadBlock ?b (Some r)], ext = s'\<rparr>)"
    by (simp add: upload_def)
  from 1(2) 1(3) up
  have "f E conn data bsz cnt (i + 1)
          (acc @ [\<lparr>name = generateBlockName E i, size_blk = int (length ?b),
                   compressedSize = int (length ?b), reference = r\<rparr>])
          \<lparr>trace = trace w @ [UploadBlock ?b (Some r)], ext = s'\<rparr> = Some y"
    by (simp add: Let_def)
  from 1(1)[OF this 1(3) 1(4)] show False .
qed

lemma uploadData_zero_blockSize_diverges:
  assumes "assertAccount E a" and "assertPodName E pod" and "assertFullPathWithName E fp"
    and "merged_blockSize opts = 0" and "payload_bytes E d \<noteq> []"
    and "getExtendedPodsListByAccountData E a pod (ext w) = (Inr info, s1)"
    and "\<forall>b s. \<exists>r s'. uploadBytes E (connection a) b s = (Inr r, s')"
  shows "uploadData E a pod fp d opts w = None"
proof -
  have c: "ceil_div (length (payload_bytes E d)) 0 = PosInf"
    using assms(5) by (simp add: ceil_div_def)
  have "uploadBlocks E (connection a) (payload_bytes E d) 0 PosInf 0 [] v = None" for v
    using uploadBlocks_PosInf_no_result[OF _ refl assms(7)]
    by (cases "uploadBlocks E (connection a) (payload_bytes E d) 0 PosInf 0 [] v") auto
  then show ?thesis
    using assms(1-4) assms(6) c
    by (simp add: uploadData_def Let_def call_def)
qed

subsection \<open>Runs of the instance\<close>

lemmas demo_simps =
  uploadData_def downloadData_def delete_def share_def getSharedInfo_def saveShared_def
  downloadShared_def downloadFromSharedPod_def
  demo_def demo_info_def alice_def guest_def w0_def opts2_def demo_conn_def
  merged_blockSize_def merged_contentType_def payload_bytes_def call_def upload_def
  ceil_div_def js_slice_def uploadBlocks.simps defaultUploadOptions_contentType_def
  defaultUploadOptions_blockSize_def connection_downloadOptions_def receive_name_def
  updateFileMetadata_def shared_info_def Let_def eval_nat_numeral

lemma demo_upload5:
  "uploadData demo alice ''pod'' ''/a'' (Bytes [1, 2, 3, 4, 5]) opts2 w0 =
     Some (Inr small_meta, small_world)"
  by (simp add: demo_simps small_meta_def small_world_def)

lemma demo_upload_big:
  "uploadData demo alice ''pod'' ''/a'' big_payload None w0 = Some (Inr big_meta, big_world)"
  by (simp add: uploadData_def demo_def demo_info_def alice_def w0_def demo_conn_def
      merged_blockSize_def merged_contentType_def payload_bytes_def call_def upload_def
      ceil_div_def js_slice_def uploadBlocks.simps defaultUploadOptions_contentType_def
      defaultUploadOptions_blockSize_def Let_def replicate_add[symmetric]
      big_payload_def big_meta_def big_world_def)

lemma demo_saveShared:
  "saveShared demo guest ''pod'' ''/docs/'' ref128 rename_b w0 = (Inr saved_meta, saved_world)"
  by (simp add: saveShared_def getSharedInfo_def call_def demo_def demo_info_def guest_def
      w0_def ref128_def rename_b_def saved_meta_def saved_world_def receive_name_def
      updateFileMetadata_def shared_info_def Let_def)

lemma demo_saveShared_plain:
  "saveShared demo guest ''pod'' ''/docs/'' ref128 None w0 =
     (Inr (saved_meta\<lparr>fileName := ''a''\<rparr>),
      \<lparr>trace =
        [GetSharedFileInfo ref128, GetExtendedPodsList ''pod'',
         AddEntryToDirectory (podWallet demo_info) ''/docs/'' ''a'' True,
         WriteFeedData ''/docs/a'' [102, 102, 101, 101] ''key''],
      ext = 4\<rparr>)"
  by (simp add: saveShared_def getSharedInfo_def call_def demo_def demo_info_def guest_def
      w0_def ref128_def saved_meta_def receive_name_def updateFileMetadata_def shared_info_def
      Let_def)

lemma demo_zero_blockSize_diverges:
  "uploadData demo alice ''pod'' ''/a'' (Bytes [1, 2, 3])
     (Some \<lparr>blockSize_opt = Some 0, contentType_opt = None\<rparr>) w0 = None"
  by (rule uploadData_zero_blockSize_diverges[where info = demo_info and ?s1.0 = 1])
     (simp_all add: demo_def alice_def w0_def merged_blockSize_def payload_bytes_def)

section \<open>The claims\<close>

text \<open>
  C1. For every payload \<open>p\<close> and every positive block size \<open>n\<close>, \<open>uploadData\<close>
  returns, and when it returns metadata the blocks it uploaded are
  \<open>\<lceil>|p| / n\<rceil>\<close> many, every block but the last has exactly \<open>n\<close> bytes, the last has
  between 1 and \<open>n\<close>, and the blocks concatenated in the order of the collection are \<open>p\<close>.
  In particular 2,500,000 bytes with a block size of 1,000,000 give the three blocks of
  1,000,000, 1,000,000 and 500,000 bytes, and \<open>fileSize = 2,500,000\<close>.
\<close>

theorem uploadData_splits_payload:
  assumes "0 < merged_blockSize opts"
  shows "(\<exists>y. uploadData E a pod fp d opts w = Some y) \<and>
         (\<forall>m w'. uploadData E a pod fp d opts w = Some (Inr m, w') \<longrightarrow>
            (let p = payload_bytes E d; n = nat (merged_blockSize opts);
                 bs = uploadedBlocks (drop (length (trace w)) (trace w'))
             in length bs = nat \<lceil>real (length p) / real n\<rceil> \<and>
                (\<forall>k. k + 1 < length bs \<longrightarrow> length (bs ! k) = n) \<and>
                (bs \<noteq> [] \<longrightarrow> 1 \<le> length (last bs) \<and> length (last bs) \<le> n) \<and>
                concat bs = p \<and>
                fileSize m = int (length p) \<and>
                (length p = 2500000 \<and> n = 1000000 \<longrightarrow>
                   map length bs = [1000000, 1000000, 500000] \<and> fileSize m = 2500000)))"
proof (intro conjI allI impI)
  from assms show "\<exists>y. uploadData E a pod fp d opts w = Some y"
    by (intro uploadData_returns) simp
next
  fix m w'
  assume run: "uploadData E a pod fp d opts w = Some (Inr m, w')"
  let ?p = "payload_bytes E d" and ?bsz = "merged_blockSize opts"
  let ?c = "nat (- ((- int (length ?p)) div ?bsz))"
  from uploadData_success[OF run] obtain info s1 rs mref where
    lt: "\<forall>j<length rs. js_less j (ceil_div (length ?p) ?bsz)" and
    ge: "\<not> js_less (length rs) (ceil_div (length ?p) ?bsz)" and
    m: "m = upload_meta E pod fp ?p opts info (getUnixTimestamp E s1) mref" and
    tr: "trace w' = trace w @ upload_events E pod fp ?p opts info (getUnixTimestamp E s1) rs mref"
    by blast
  from assms have cd: "ceil_div (length ?p) ?bsz = Fin (- ((- int (length ?p)) div ?bsz))"
    by (simp add: ceil_div_def)
  from loop_count[OF lt[unfolded cd] ge[unfolded cd]] have len: "length rs = ?c" .
  have bs: "uploadedBlocks (drop (length (trace w)) (trace w')) = map (blockSlice ?p ?bsz) [0..<?c]"
    using new_events[OF tr] len by (simp add: uploadedBlocks_upload_events)
  note B = blocks_of_payload[OF assms, of ?p]
  have fs: "fileSize m = int (length ?p)" by (simp add: m upload_meta_def)
  have big: "map length (map (blockSlice ?p ?bsz) [0..<?c]) = [1000000, 1000000, 500000]"
    if "length ?p = 2500000" "nat ?bsz = 1000000"
  proof -
    from that(2) have b: "?bsz = 1000000" by simp
    with that(1) have "?c = 3" by simp
    with sizes_concrete[OF that(1)] b show ?thesis by simp
  qed
  show "let p = ?p; n = nat ?bsz; bs = uploadedBlocks (drop (length (trace w)) (trace w'))
        in length bs = nat \<lceil>real (length p) / real n\<rceil> \<and>
           (\<forall>k. k + 1 < length bs \<longrightarrow> length (bs ! k) = n) \<and>
           (bs \<noteq> [] \<longrightarrow> 1 \<le> length (last bs) \<and> length (last bs) \<le> n) \<and>
           concat bs = p \<and>
           fileSize m = int (length p) \<and>
           (length p = 2500000 \<and> n = 1000000 \<longrightarrow>
              map length bs = [1000000, 1000000, 500000] \<and> fileSize m = 2500000)"
    unfolding Let_def bs
    using B(1) B(2) B(3) B(4) fs big by auto
qed

theorem uploadData_splits_payload_witness:
  "0 < merged_blockSize None \<and>
   uploadData demo alice ''pod'' ''/a'' big_payload None w0 = Some (Inr big_meta, big_world) \<and>
   length (payload_bytes demo big_payload) = 2500000 \<and>
   nat (merged_blockSize None) = 1000000 \<and>
   length (uploadedBlocks (drop (length (trace w0)) (trace big_world))) = 3 \<and>
   map length (uploadedBlocks (drop (length (trace w0)) (trace big_world)))
     = [1000000, 1000000, 500000] \<and>
   concat (uploadedBlocks (drop (length (trace w0)) (trace big_world)))
     = payload_bytes demo big_payload \<and>
   fileSize big_meta = 2500000"
proof -
  have h1: "0 < merged_blockSize None"
    by (simp add: merged_blockSize_def defaultUploadOptions_blockSize_def)
  have h2: "length (payload_bytes demo big_payload) = 2500000"
    by (simp add: payload_bytes_def big_payload_def)
  have h3: "nat (merged_blockSize None) = 1000000"
    by (simp add: merged_blockSize_def defaultUploadOptions_blockSize_def)
  from uploadData_splits_payload[OF h1, of demo alice "''pod''" "''/a''" big_payload w0]
  have "let p = payload_bytes demo big_payload; n = nat (merged_blockSize None);
            bs = uploadedBlocks (drop (length (trace w0)) (trace big_world))
        in length bs = nat \<lceil>real (length p) / real n\<rceil> \<and>
           (\<forall>k. k + 1 < length bs \<longrightarrow> length (bs ! k) = n) \<and>
           (bs \<noteq> [] \<longrightarrow> 1 \<le> length (last bs) \<and> length (last bs) \<le> n) \<and>
           concat bs = p \<and>
           fileSize big_meta = int (length p) \<and>
           (length p = 2500000 \<and> n = 1000000 \<longrightarrow>
              map length bs = [1000000, 1000000, 500000] \<and> fileSize big_meta = 2500000)"
    using demo_upload_big by blast
  then have c: "map length (uploadedBlocks (drop (length (trace w0)) (trace big_world)))
                  = [1000000, 1000000, 500000]"
     "concat (uploadedBlocks (drop (length (trace w0)) (trace big_world)))
                  = payload_bytes demo big_payload"
     "fileSize big_meta = 2500000"
    unfolding Let_def using h2 h3 by blast+
  from c(1) have "length (map length (uploadedBlocks (drop (length (trace w0)) (trace big_world)))) = 3"
    by simp
  then have "length (uploadedBlocks (drop (length (trace w0)) (trace big_world))) = 3"
    by simp
  with h1 h2 h3 c demo_upload_big show ?thesis by blast
qed

text \<open>
  C2. The claim has \<open>fileSize\<close> equal to the sum of the \<open>size\<close> fields of the block
  descriptors in every upload. file.ts sets \<open>fileSize\<close> to the length of the payload and
  does not check the block size: with the block size \<open>-1\<close> the upload of three bytes
  returns \<open>fileSize = 3\<close>, while \<open>blocksCount\<close> is \<open>-3\<close>, the loop pushes no
  descriptor, the manifest is that of the empty collection and the sizes sum to 0.
\<close>

theorem uploadData_fileSize_not_sum_of_sizes:
  "uploadData demo alice ''pod'' ''/a'' (Bytes [1, 2, 3]) opts_neg w0
     = Some (Inr neg_meta, neg_world) \<and>
   uploadBlocks demo (connection alice) (payload_bytes demo (Bytes [1, 2, 3]))
       (merged_blockSize opts_neg)
       (ceil_div (length (payload_bytes demo (Bytes [1, 2, 3]))) (merged_blockSize opts_neg))
       0 [] \<lparr>trace = [GetExtendedPodsList ''pod'', Now 1], ext = 1\<rparr>
     = Some (Inr [], \<lparr>trace = [GetExtendedPodsList ''pod'', Now 1], ext = 1\<rparr>) \<and>
   trace neg_world ! 2
     = UploadManifest (stringToBytes demo (blocksToManifest demo \<lparr>blocks = []\<rparr>)) (Some []) \<and>
   fileSize neg_meta = 3 \<and>
   sum_list (map size_blk ([] :: Block list)) = 0 \<and>
   fileSize neg_meta \<noteq> sum_list (map size_blk ([] :: Block list))"
  by (simp add: demo_simps opts_neg_def neg_meta_def neg_world_def)

text \<open>
  C2, as the code has it. The metadata that \<open>uploadData\<close> returns has the schema tag
  \<open>META_VERSION\<close> as its version; its three timestamps are the one clock reading of the
  operation, which is taken after the pod lookup and before every upload; \<open>fileSize\<close> is
  the length of the payload and, when the block size is positive, the sum of the \<open>size\<close>
  fields of the descriptors; \<open>blockSize\<close> is the configured block size;
  \<open>blocksReference\<close> is the reference that the upload of the manifest returned. The
  descriptor of the \<open>j\<close>-th block has the name \<open>generateBlockName j\<close> and its
  \<open>compressedSize\<close> equals its \<open>size\<close>.
\<close>

theorem uploadData_metadata:
  assumes "uploadData E a pod fp d opts w = Some (Inr m, w')"
  shows "\<exists>info s1 rs mref blks.
           getExtendedPodsListByAccountData E a pod (ext w) = (Inr info, s1) \<and>
           blks = map (descriptor E (payload_bytes E d) (merged_blockSize opts)) (enumerate 0 rs) \<and>
           trace w' = trace w
             @ [GetExtendedPodsList pod, Now (getUnixTimestamp E s1)]
             @ map (blockEvent (payload_bytes E d) (merged_blockSize opts)) (enumerate 0 rs)
             @ [UploadManifest (stringToBytes E (blocksToManifest E \<lparr>blocks = blks\<rparr>)) (Some mref),
                AddEntryToDirectory (podWallet info) (path (extractPathInfo E fp))
                  (filename (extractPathInfo E fp)) True,
                WriteFeedData fp (getFileMetadataRawBytes E m) (privateKey (podWallet info))] \<and>
           version m = META_VERSION E \<and>
           creationTime m = getUnixTimestamp E s1 \<and>
           accessTime m = getUnixTimestamp E s1 \<and>
           modificationTime m = getUnixTimestamp E s1 \<and>
           fileSize m = int (length (payload_bytes E d)) \<and>
           blockSize m = merged_blockSize opts \<and>
           blocksReference m = mref \<and>
           length blks = length rs \<and>
           (\<forall>j<length blks.
              name (blks ! j) = generateBlockName E j \<and>
              compressedSize (blks ! j) = size_blk (blks ! j) \<and>
              size_blk (blks ! j) = int (length (blockSlice (payload_bytes E d) (merged_blockSize opts) j)) \<and>
              reference (blks ! j) = rs ! j) \<and>
           (0 < merged_blockSize opts \<longrightarrow> fileSize m = sum_list (map size_blk blks))"
proof -
  let ?p = "payload_bytes E d" and ?bsz = "merged_blockSize opts"
  from uploadData_success[OF assms] obtain info s1 rs mref where
    g: "getExtendedPodsListByAccountData E a pod (ext w) = (Inr info, s1)" and
    lt: "\<forall>j<length rs. js_less j (ceil_div (length ?p) ?bsz)" and
    ge: "\<not> js_less (length rs) (ceil_div (length ?p) ?bsz)" and
    m: "m = upload_meta E pod fp ?p opts info (getUnixTimestamp E s1) mref" and
    tr: "trace w' = trace w @ upload_events E pod fp ?p opts info (getUnixTimestamp E s1) rs mref"
    by blast
  let ?blks = "map (descriptor E ?p ?bsz) (enumerate 0 rs)"
  have t: "trace w' = trace w
             @ [GetExtendedPodsList pod, Now (getUnixTimestamp E s1)]
             @ map (blockEvent ?p ?bsz) (enumerate 0 rs)
             @ [UploadManifest (stringToBytes E (blocksToManifest E \<lparr>blocks = ?blks\<rparr>)) (Some mref),
                AddEntryToDirectory (podWallet info) (path (extractPathInfo E fp))
                  (filename (extractPathInfo E fp)) True,
                WriteFeedData fp (getFileMetadataRawBytes E m) (privateKey (podWallet info))]"
    using tr m by (simp add: upload_events_def upload_tail_def)
  have f: "version m = META_VERSION E" "creationTime m = getUnixTimestamp E s1"
    "accessTime m = getUnixTimestamp E s1" "modificationTime m = getUnixTimestamp E s1"
    "fileSize m = int (length ?p)" "blockSize m = ?bsz" "blocksReference m = mref"
    by (simp_all add: m upload_meta_def)
  have l: "length ?blks = length rs" by simp
  have n: "\<forall>j<length ?blks.
              name (?blks ! j) = generateBlockName E j \<and>
              compressedSize (?blks ! j) = size_blk (?blks ! j) \<and>
              size_blk (?blks ! j) = int (length (blockSlice ?p ?bsz j)) \<and>
              reference (?blks ! j) = rs ! j"
  proof (intro allI impI)
    fix j assume "j < length ?blks"
    then have "j < length rs" by simp
    from descriptor_nth[OF this, of E ?p ?bsz]
    show "name (?blks ! j) = generateBlockName E j \<and>
              compressedSize (?blks ! j) = size_blk (?blks ! j) \<and>
              size_blk (?blks ! j) = int (length (blockSlice ?p ?bsz j)) \<and>
              reference (?blks ! j) = rs ! j" by simp
  qed
  have s: "fileSize m = sum_list (map size_blk ?blks)" if pos: "0 < ?bsz"
  proof -
    from pos have cd: "ceil_div (length ?p) ?bsz = Fin (- ((- int (length ?p)) div ?bsz))"
      by (simp add: ceil_div_def)
    from loop_count[OF lt[unfolded cd] ge[unfolded cd]]
    have len: "length rs = nat (- ((- int (length ?p)) div ?bsz))" .
    have "sum_list (map size_blk ?blks) =
            int (sum_list (map length (map (blockSlice ?p ?bsz) [0..<length rs])))"
      unfolding descriptor_sizes by (simp add: sum_list_of_nat[symmetric] comp_def)
    also have "\<dots> = int (length ?p)"
      using blocks_of_payload(5)[OF pos, of ?p] len by simp
    finally show ?thesis using f(5) by simp
  qed
  show ?thesis
    using g t f l n s by blast
qed

theorem uploadData_metadata_witness:
  "uploadData demo alice ''pod'' ''/a'' (Bytes [1, 2, 3, 4, 5]) opts2 w0
      = Some (Inr small_meta, small_world) \<and>
   0 < merged_blockSize opts2 \<and>
   version small_meta = META_VERSION demo \<and>
   accessTime small_meta = creationTime small_meta \<and>
   modificationTime small_meta = creationTime small_meta \<and>
   fileSize small_meta = int (length (payload_bytes demo (Bytes [1, 2, 3, 4, 5]))) \<and>
   blockSize small_meta = merged_blockSize opts2"
proof -
  have h: "0 < merged_blockSize opts2" by (simp add: merged_blockSize_def opts2_def)
  from uploadData_metadata[OF demo_upload5]
  have "version small_meta = META_VERSION demo \<and>
        accessTime small_meta = creationTime small_meta \<and>
        modificationTime small_meta = creationTime small_meta \<and>
        fileSize small_meta = int (length (payload_bytes demo (Bytes [1, 2, 3, 4, 5]))) \<and>
        blockSize small_meta = merged_blockSize opts2"
    by metis
  with h demo_upload5 show ?thesis by blast
qed

text \<open>
  C6. In every execution of \<open>uploadData\<close> that returns, the events follow the order of
  \<open>order_run\<close>: the manifest is uploaded after every block upload has returned its
  reference, the directory entry is registered after the manifest upload, and the feed
  publish comes after the registration and is the last step. In a successful execution the
  manifest that is uploaded encodes the descriptors with the references that the block
  uploads returned, and the metadata that is published carries the reference that the
  manifest upload returned. (The directory registration takes the pod wallet, the path
  and the file name.)
\<close>

theorem uploadData_order:
  assumes "uploadData E a pod fp d opts w = Some (res, w')"
  shows "\<exists>evs. trace w' = trace w @ evs \<and> order_run Start evs \<noteq> None \<and>
           (\<forall>m. res = Inr m \<longrightarrow>
              order_run Start evs = Some Published \<and>
              (\<exists>(info :: ExtendedInfo) now rs mref.
                 evs = [GetExtendedPodsList pod, Now now]
                   @ map (blockEvent (payload_bytes E d) (merged_blockSize opts)) (enumerate 0 rs)
                   @ [UploadManifest
                        (stringToBytes E (blocksToManifest E
                           \<lparr>blocks = map (descriptor E (payload_bytes E d) (merged_blockSize opts))
                                        (enumerate 0 rs)\<rparr>))
                        (Some mref),
                      AddEntryToDirectory (podWallet info) (path (extractPathInfo E fp))
                        (filename (extractPathInfo E fp)) True,
                      WriteFeedData fp (getFileMetadataRawBytes E m) (privateKey (podWallet info))] \<and>
                 blocksReference m = mref))"
proof -
  from uploadData_trace_order[OF assms] obtain evs where
    evs: "trace w' = trace w @ evs" "order_run Start evs \<noteq> None" by blast
  have S: "order_run Start evs = Some Published \<and>
        (\<exists>(info :: ExtendedInfo) now rs mref.
           evs = [GetExtendedPodsList pod, Now now]
             @ map (blockEvent (payload_bytes E d) (merged_blockSize opts)) (enumerate 0 rs)
             @ [UploadManifest
                  (stringToBytes E (blocksToManifest E
                     \<lparr>blocks = map (descriptor E (payload_bytes E d) (merged_blockSize opts))
                                  (enumerate 0 rs)\<rparr>))
                  (Some mref),
                AddEntryToDirectory (podWallet info) (path (extractPathInfo E fp))
                  (filename (extractPathInfo E fp)) True,
                WriteFeedData fp (getFileMetadataRawBytes E m) (privateKey (podWallet info))] \<and>
           blocksReference m = mref)" if r: "res = Inr m" for m
  proof -
    from uploadData_success[OF assms[unfolded r]] obtain info s1 rs mref where
      m: "m = upload_meta E pod fp (payload_bytes E d) opts info (getUnixTimestamp E s1) mref" and
      tr: "trace w' = trace w @
             upload_events E pod fp (payload_bytes E d) opts info (getUnixTimestamp E s1) rs mref"
      by blast
    from tr evs(1) have e: "evs = upload_events E pod fp (payload_bytes E d) opts info
                                    (getUnixTimestamp E s1) rs mref" by simp
    have p: "order_run Start evs = Some Published"
      unfolding e upload_events_def upload_tail_def
      by (simp add: order_run_append order_run_blocks)
    have b: "blocksReference m = mref" by (simp add: m upload_meta_def)
    have ev: "evs = [GetExtendedPodsList pod, Now (getUnixTimestamp E s1)]
             @ map (blockEvent (payload_bytes E d) (merged_blockSize opts)) (enumerate 0 rs)
             @ [UploadManifest
                  (stringToBytes E (blocksToManifest E
                     \<lparr>blocks = map (descriptor E (payload_bytes E d) (merged_blockSize opts))
                                  (enumerate 0 rs)\<rparr>))
                  (Some mref),
                AddEntryToDirectory (podWallet info) (path (extractPathInfo E fp))
                  (filename (extractPathInfo E fp)) True,
                WriteFeedData fp (getFileMetadataRawBytes E m) (privateKey (podWallet info))]"
      unfolding e m upload_events_def upload_tail_def by (rule refl)
    show ?thesis
      by (rule conjI[OF p]) (rule exI conjI ev b)+
  qed
  show ?thesis
  proof (rule exI[of _ evs], intro conjI allI impI)
    show "trace w' = trace w @ evs" by (rule evs(1))
    show "order_run Start evs \<noteq> None" by (rule evs(2))
  next
    fix m assume "res = Inr m"
    from S[OF this] show "order_run Start evs = Some Published" by (rule conjunct1)
  next
    fix m assume "res = Inr m"
    from S[OF this] show "\<exists>(info :: ExtendedInfo) now rs mref.
           evs = [GetExtendedPodsList pod, Now now]
             @ map (blockEvent (payload_bytes E d) (merged_blockSize opts)) (enumerate 0 rs)
             @ [UploadManifest
                  (stringToBytes E (blocksToManifest E
                     \<lparr>blocks = map (descriptor E (payload_bytes E d) (merged_blockSize opts))
                                  (enumerate 0 rs)\<rparr>))
                  (Some mref),
                AddEntryToDirectory (podWallet info) (path (extractPathInfo E fp))
                  (filename (extractPathInfo E fp)) True,
                WriteFeedData fp (getFileMetadataRawBytes E m) (privateKey (podWallet info))] \<and>
           blocksReference m = mref" by (rule conjunct2)
  qed
qed

theorem uploadData_order_witness:
  "uploadData demo alice ''pod'' ''/a'' (Bytes [1, 2, 3, 4, 5]) opts2 w0
      = Some (Inr small_meta, small_world) \<and>
   order_run Start (trace small_world) = Some Published"
proof -
  from uploadData_order[OF demo_upload5] obtain evs where
    e: "trace small_world = trace w0 @ evs" and
    o: "order_run Start evs = Some Published"
    by blast
  from e o have "order_run Start (trace small_world) = Some Published"
    by (simp add: w0_def)
  with demo_upload5 show ?thesis by simp
qed

text \<open>
  C10. For a payload of length zero, whatever the block size, \<open>uploadData\<close> uploads no
  block: when the assertions pass and the collaborators succeed, it uploads the manifest of
  the empty collection, registers the directory entry, publishes the metadata and returns
  it, with \<open>fileSize = 0\<close>.
\<close>

theorem uploadData_empty_payload:
  assumes "assertAccount E a" and "assertPodName E pod" and "assertFullPathWithName E fp"
    and "payload_bytes E d = []"
    and "getExtendedPodsListByAccountData E a pod (ext w) = (Inr info, s1)"
    and "uploadBytes E (connection a)
           (stringToBytes E (blocksToManifest E \<lparr>blocks = []\<rparr>)) s1 = (Inr mref, s2)"
    and "addEntryToDirectory E (connection a) (podWallet info) (path (extractPathInfo E fp))
           (filename (extractPathInfo E fp)) True s2 = (Inr (), s3)"
    and "writeFeedData E (connection a) fp
           (getFileMetadataRawBytes E
              (upload_meta E pod fp [] opts info (getUnixTimestamp E s1) mref))
           (privateKey (podWallet info)) s3 = (Inr (), s4)"
  shows "uploadData E a pod fp d opts w =
           Some (Inr (upload_meta E pod fp [] opts info (getUnixTimestamp E s1) mref),
                 \<lparr>trace = trace w @
                    [GetExtendedPodsList pod, Now (getUnixTimestamp E s1),
                     UploadManifest (stringToBytes E (blocksToManifest E \<lparr>blocks = []\<rparr>)) (Some mref),
                     AddEntryToDirectory (podWallet info) (path (extractPathInfo E fp))
                       (filename (extractPathInfo E fp)) True,
                     WriteFeedData fp
                       (getFileMetadataRawBytes E
                          (upload_meta E pod fp [] opts info (getUnixTimestamp E s1) mref))
                       (privateKey (podWallet info))],
                  ext = s4\<rparr>) \<and>
         fileSize (upload_meta E pod fp [] opts info (getUnixTimestamp E s1) mref) = 0"
proof -
  have nb: "\<not> js_less 0 (ceil_div (length (payload_bytes E d)) (merged_blockSize opts))"
    using assms(4) by (simp add: no_blocks_empty)
  have wf: "writeFeedData E (connection a) fp
           (getFileMetadataRawBytes E
              (upload_meta E pod fp (payload_bytes E d) opts info (getUnixTimestamp E s1) mref))
           (privateKey (podWallet info)) s3 = (Inr (), s4)"
    using assms(8) by (simp only: assms(4))
  have "fileSize (upload_meta E pod fp [] opts info (getUnixTimestamp E s1) mref) = 0"
    by (simp add: upload_meta_def)
  with uploadData_no_blocks[OF assms(1-3) nb assms(5) assms(6) assms(7) wf]
  show ?thesis by (simp only: assms(4) simp_thms)
qed

theorem uploadData_empty_payload_witness:
  "assertAccount demo alice \<and> assertPodName demo ''pod'' \<and> assertFullPathWithName demo ''/a'' \<and>
   payload_bytes demo (Text []) = [] \<and>
   getExtendedPodsListByAccountData demo alice ''pod'' (ext w0) = (Inr demo_info, 1) \<and>
   uploadBytes demo (connection alice)
     (stringToBytes demo (blocksToManifest demo \<lparr>blocks = []\<rparr>)) 1 = (Inr [], 2) \<and>
   addEntryToDirectory demo (connection alice) (podWallet demo_info)
     (path (extractPathInfo demo ''/a'')) (filename (extractPathInfo demo ''/a'')) True 2
       = (Inr (), 3) \<and>
   writeFeedData demo (connection alice) ''/a''
     (getFileMetadataRawBytes demo
        (upload_meta demo ''pod'' ''/a'' [] None demo_info (getUnixTimestamp demo 1) []))
     (privateKey (podWallet demo_info)) 3 = (Inr (), 4) \<and>
   uploadData demo alice ''pod'' ''/a'' (Text []) None w0 =
     Some (Inr (upload_meta demo ''pod'' ''/a'' [] None demo_info (getUnixTimestamp demo 1) []),
           \<lparr>trace = trace w0 @
              [GetExtendedPodsList ''pod'', Now (getUnixTimestamp demo 1),
               UploadManifest (stringToBytes demo (blocksToManifest demo \<lparr>blocks = []\<rparr>)) (Some []),
               AddEntryToDirectory (podWallet demo_info) (path (extractPathInfo demo ''/a''))
                 (filename (extractPathInfo demo ''/a'')) True,
               WriteFeedData ''/a''
                 (getFileMetadataRawBytes demo
                    (upload_meta demo ''pod'' ''/a'' [] None demo_info (getUnixTimestamp demo 1) []))
                 (privateKey (podWallet demo_info))],
            ext = 4\<rparr>) \<and>
   fileSize (upload_meta demo ''pod'' ''/a'' [] None demo_info (getUnixTimestamp demo 1) []) = 0"
proof -
  have h: "assertAccount demo alice" "assertPodName demo ''pod''" "assertFullPathWithName demo ''/a''"
    "payload_bytes demo (Text []) = []"
    "getExtendedPodsListByAccountData demo alice ''pod'' (ext w0) = (Inr demo_info, 1)"
    "uploadBytes demo (connection alice)
       (stringToBytes demo (blocksToManifest demo \<lparr>blocks = []\<rparr>)) 1 = (Inr [], 2)"
    "addEntryToDirectory demo (connection alice) (podWallet demo_info)
       (path (extractPathInfo demo ''/a'')) (filename (extractPathInfo demo ''/a'')) True 2
         = (Inr (), 3)"
    "writeFeedData demo (connection alice) ''/a''
       (getFileMetadataRawBytes demo
          (upload_meta demo ''pod'' ''/a'' [] None demo_info (getUnixTimestamp demo 1) []))
       (privateKey (podWallet demo_info)) 3 = (Inr (), 4)"
    by (simp_all add: demo_def alice_def w0_def payload_bytes_def)
  from uploadData_empty_payload[OF h(1) h(2) h(3) h(4) h(5) h(6) h(7) h(8)] h
  show ?thesis by simp
qed

text \<open>
  C5. The claim is that \<open>uploadData\<close> fails with a configuration error when the block
  size is zero or negative. file.ts has no check of the block size. With the block size
  \<open>-1\<close> the upload of three bytes succeeds: no block is uploaded, the manifest of the
  empty collection is, and the metadata says \<open>fileSize = 3\<close> and \<open>blockSize = -1\<close>.
\<close>

theorem uploadData_negative_blockSize_succeeds:
  "merged_blockSize opts_neg \<le> 0 \<and>
   uploadData demo alice ''pod'' ''/a'' (Bytes [1, 2, 3]) opts_neg w0
     = Some (Inr neg_meta, neg_world)"
  by (simp add: demo_simps opts_neg_def neg_meta_def neg_world_def)

text \<open>
  C5, as the code has it. With a negative block size, or with the block size zero and an
  empty payload, \<open>blocksCount\<close> is not above zero, so the loop uploads no block; when
  the assertions pass and the collaborators succeed the operation uploads the manifest of the
  empty collection, registers the directory entry, publishes the metadata and returns it,
  with \<open>fileSize\<close> the length of the payload and \<open>blockSize\<close> the configured value.
\<close>

theorem uploadData_nonpositive_blockSize:
  assumes "assertAccount E a" and "assertPodName E pod" and "assertFullPathWithName E fp"
    and "merged_blockSize opts < 0 \<or> (merged_blockSize opts = 0 \<and> payload_bytes E d = [])"
    and "getExtendedPodsListByAccountData E a pod (ext w) = (Inr info, s1)"
    and "uploadBytes E (connection a)
           (stringToBytes E (blocksToManifest E \<lparr>blocks = []\<rparr>)) s1 = (Inr mref, s2)"
    and "addEntryToDirectory E (connection a) (podWallet info) (path (extractPathInfo E fp))
           (filename (extractPathInfo E fp)) True s2 = (Inr (), s3)"
    and "writeFeedData E (connection a) fp
           (getFileMetadataRawBytes E
              (upload_meta E pod fp (payload_bytes E d) opts info (getUnixTimestamp E s1) mref))
           (privateKey (podWallet info)) s3 = (Inr (), s4)"
  shows "uploadData E a pod fp d opts w =
           Some (Inr (upload_meta E pod fp (payload_bytes E d) opts info (getUnixTimestamp E s1) mref),
                 \<lparr>trace = trace w @
                    [GetExtendedPodsList pod, Now (getUnixTimestamp E s1),
                     UploadManifest (stringToBytes E (blocksToManifest E \<lparr>blocks = []\<rparr>)) (Some mref),
                     AddEntryToDirectory (podWallet info) (path (extractPathInfo E fp))
                       (filename (extractPathInfo E fp)) True,
                     WriteFeedData fp
                       (getFileMetadataRawBytes E
                          (upload_meta E pod fp (payload_bytes E d) opts info (getUnixTimestamp E s1) mref))
                       (privateKey (podWallet info))],
                  ext = s4\<rparr>) \<and>
         fileSize (upload_meta E pod fp (payload_bytes E d) opts info (getUnixTimestamp E s1) mref)
           = int (length (payload_bytes E d)) \<and>
         blockSize (upload_meta E pod fp (payload_bytes E d) opts info (getUnixTimestamp E s1) mref)
           = merged_blockSize opts"
proof -
  have nb: "\<not> js_less 0 (ceil_div (length (payload_bytes E d)) (merged_blockSize opts))"
    using assms(4) no_blocks_negative[of "merged_blockSize opts" "length (payload_bytes E d)"]
      no_blocks_empty[of "merged_blockSize opts"]
    by auto
  have f: "fileSize (upload_meta E pod fp (payload_bytes E d) opts info (getUnixTimestamp E s1) mref)
           = int (length (payload_bytes E d))"
      "blockSize (upload_meta E pod fp (payload_bytes E d) opts info (getUnixTimestamp E s1) mref)
           = merged_blockSize opts"
    by (simp_all add: upload_meta_def)
  from uploadData_no_blocks[OF assms(1-3) nb assms(5-8)] f
  show ?thesis by (intro conjI)
qed

theorem uploadData_nonpositive_blockSize_witness:
  "assertAccount demo alice \<and> assertPodName demo ''pod'' \<and> assertFullPathWithName demo ''/a'' \<and>
   merged_blockSize opts_neg < 0 \<and>
   getExtendedPodsListByAccountData demo alice ''pod'' (ext w0) = (Inr demo_info, 1) \<and>
   uploadBytes demo (connection alice)
     (stringToBytes demo (blocksToManifest demo \<lparr>blocks = []\<rparr>)) 1 = (Inr [], 2) \<and>
   addEntryToDirectory demo (connection alice) (podWallet demo_info)
     (path (extractPathInfo demo ''/a'')) (filename (extractPathInfo demo ''/a'')) True 2
       = (Inr (), 3) \<and>
   writeFeedData demo (connection alice) ''/a''
     (getFileMetadataRawBytes demo
        (upload_meta demo ''pod'' ''/a'' (payload_bytes demo (Bytes [1, 2, 3])) opts_neg demo_info
           (getUnixTimestamp demo 1) []))
     (privateKey (podWallet demo_info)) 3 = (Inr (), 4) \<and>
   fileSize (upload_meta demo ''pod'' ''/a'' (payload_bytes demo (Bytes [1, 2, 3])) opts_neg demo_info
           (getUnixTimestamp demo 1) []) = 3 \<and>
   blockSize (upload_meta demo ''pod'' ''/a'' (payload_bytes demo (Bytes [1, 2, 3])) opts_neg demo_info
           (getUnixTimestamp demo 1) []) = - 1"
proof -
  have n: "merged_blockSize opts_neg < 0 \<or>
           (merged_blockSize opts_neg = 0 \<and> payload_bytes demo (Bytes [1, 2, 3]) = [])"
    and n': "merged_blockSize opts_neg < 0" "merged_blockSize opts_neg = - 1"
    by (simp_all add: merged_blockSize_def opts_neg_def)
  have h: "assertAccount demo alice" "assertPodName demo ''pod''" "assertFullPathWithName demo ''/a''"
    "getExtendedPodsListByAccountData demo alice ''pod'' (ext w0) = (Inr demo_info, 1)"
    "uploadBytes demo (connection alice)
       (stringToBytes demo (blocksToManifest demo \<lparr>blocks = []\<rparr>)) 1 = (Inr [], 2)"
    "addEntryToDirectory demo (connection alice) (podWallet demo_info)
       (path (extractPathInfo demo ''/a'')) (filename (extractPathInfo demo ''/a'')) True 2
         = (Inr (), 3)"
    "writeFeedData demo (connection alice) ''/a''
       (getFileMetadataRawBytes demo
          (upload_meta demo ''pod'' ''/a'' (payload_bytes demo (Bytes [1, 2, 3])) opts_neg demo_info
             (getUnixTimestamp demo 1) []))
       (privateKey (podWallet demo_info)) 3 = (Inr (), 4)"
    by (simp_all add: demo_def alice_def w0_def)
  have l: "int (length (payload_bytes demo (Bytes [1, 2, 3]))) = 3"
    by (simp add: payload_bytes_def)
  from uploadData_nonpositive_blockSize[OF h(1) h(2) h(3) n h(4) h(5) h(6) h(7)] h n' l
  show ?thesis by simp
qed

text \<open>
  C8. \<open>delete\<close> leaves, besides the pod lookup, at most one event: the removal of the
  directory entry. It calls neither \<open>uploadBytes\<close> nor \<open>writeFeedData\<close>, so it writes
  nothing to the content-addressed store and publishes nothing to a feed. When the
  assertions pass and the pod lookup succeeds there is exactly one removal, of the entry of
  the given path, and the collaborator state after the operation is the one that
  \<open>removeEntryFromDirectory\<close> returned. (What that collaborator does inside is not part of
  file.ts.)
\<close>

theorem delete_removes_only_the_entry:
  assumes "delete E a pod fp w = (res, w')"
  shows "\<exists>evs. trace w' = trace w @ evs \<and>
           filter is_store_write evs = [] \<and>
           filter is_feed_publish evs = [] \<and>
           length (filter is_entry_removal evs) \<le> 1 \<and>
           (\<forall>(info :: ExtendedInfo) s1.
              assertAccount E a \<and> assertFullPathWithName E fp \<and> assertPodName E pod \<and>
              getExtendedPodsListByAccountData E a pod (ext w) = (Inr info, s1) \<longrightarrow>
                evs = [GetExtendedPodsList pod,
                       RemoveEntryFromDirectory (podWallet info) (path (extractPathInfo E fp))
                         (filename (extractPathInfo E fp)) True] \<and>
                (\<exists>r. removeEntryFromDirectory E (connection a) (podWallet info)
                        (path (extractPathInfo E fp)) (filename (extractPathInfo E fp)) True s1
                      = (r, ext w')))"
proof (cases "assertAccount E a \<and> assertFullPathWithName E fp \<and> assertPodName E pod")
  case False
  with assms have "w' = w" by (auto simp: delete_def split: if_splits)
  with False show ?thesis by (intro exI[of _ "[]"]) auto
next
  case True
  obtain r1 w1 where c1:
    "call (GetExtendedPodsList pod) (getExtendedPodsListByAccountData E a pod) w = (r1, w1)"
    by (cases "call (GetExtendedPodsList pod) (getExtendedPodsListByAccountData E a pod) w")
  from call_trace[OF c1] have t1: "trace w1 = trace w @ [GetExtendedPodsList pod]" by simp
  show ?thesis
  proof (cases r1)
    case (Inl e)
    with assms True c1 have "w' = w1" by (simp add: delete_def Let_def)
    moreover from call_Inl[OF c1[unfolded Inl]] obtain m where
      "getExtendedPodsListByAccountData E a pod (ext w) = (Inl m, ext w1)" by blast
    ultimately show ?thesis using t1
      by (intro exI[of _ "[GetExtendedPodsList pod]"]) simp
  next
    case (Inr info)
    let ?ev = "RemoveEntryFromDirectory (podWallet info) (path (extractPathInfo E fp))
                 (filename (extractPathInfo E fp)) True"
    from assms True c1 Inr have c2:
      "call ?ev (removeEntryFromDirectory E (connection a) (podWallet info)
                   (path (extractPathInfo E fp)) (filename (extractPathInfo E fp)) True) w1
         = (res, w')"
      by (simp add: delete_def Let_def)
    from call_trace[OF c2] obtain r where
      t2: "trace w' = trace w1 @ [?ev]" and
      r: "removeEntryFromDirectory E (connection a) (podWallet info)
            (path (extractPathInfo E fp)) (filename (extractPathInfo E fp)) True (ext w1) = (r, ext w')"
      by blast
    from call_Inr[OF c1[unfolded Inr]]
    have g: "getExtendedPodsListByAccountData E a pod (ext w) = (Inr info, ext w1)" by simp
    show ?thesis
      using t1 t2 g r by (intro exI[of _ "[GetExtendedPodsList pod, ?ev]"]) auto
  qed
qed

theorem delete_removes_only_the_entry_witness:
  "delete demo alice ''pod'' ''/a'' w0 =
     (Inr (), \<lparr>trace = [GetExtendedPodsList ''pod'',
                        RemoveEntryFromDirectory (podWallet demo_info) ''/'' ''a'' True],
              ext = 2\<rparr>) \<and>
   assertAccount demo alice \<and> assertFullPathWithName demo ''/a'' \<and> assertPodName demo ''pod'' \<and>
   getExtendedPodsListByAccountData demo alice ''pod'' (ext w0) = (Inr demo_info, 1) \<and>
   (\<exists>evs. [GetExtendedPodsList ''pod'',
            RemoveEntryFromDirectory (podWallet demo_info) ''/'' ''a'' True] = trace w0 @ evs \<and>
          filter is_store_write evs = [] \<and> filter is_feed_publish evs = [] \<and>
          length (filter is_entry_removal evs) \<le> 1)"
proof -
  have run: "delete demo alice ''pod'' ''/a'' w0 =
     (Inr (), \<lparr>trace = [GetExtendedPodsList ''pod'',
                        RemoveEntryFromDirectory (podWallet demo_info) ''/'' ''a'' True],
              ext = 2\<rparr>)"
    by (simp add: demo_simps)
  have h: "assertAccount demo alice" "assertFullPathWithName demo ''/a''" "assertPodName demo ''pod''"
    "getExtendedPodsListByAccountData demo alice ''pod'' (ext w0) = (Inr demo_info, 1)"
    by (simp_all add: demo_def alice_def w0_def)
  from delete_removes_only_the_entry[OF run]
  have "\<exists>evs. [GetExtendedPodsList ''pod'',
            RemoveEntryFromDirectory (podWallet demo_info) ''/'' ''a'' True] = trace w0 @ evs \<and>
          filter is_store_write evs = [] \<and> filter is_feed_publish evs = [] \<and>
          length (filter is_entry_removal evs) \<le> 1"
    by (elim exE conjE, intro exI conjI) simp_all
  with run h show ?thesis by simp
qed

text \<open>
  C4. When the reference does not pass \<open>assertEncryptedReference\<close>, \<open>getSharedInfo\<close> and
  \<open>downloadFromSharedPod\<close> (and \<open>downloadShared\<close>, which starts with \<open>getSharedInfo\<close>)
  fail with \<open>InvalidReference\<close> and leave the world as it was: no event is added to the
  trace and no collaborator has run.
\<close>

theorem invalid_reference_rejected_first:
  assumes "\<not> assertEncryptedReference E ref"
  shows "getSharedInfo E a ref w = (Inl InvalidReference, w) \<and>
         downloadFromSharedPod E a ref fp w = (Inl InvalidReference, w) \<and>
         downloadShared E a ref w = (Inl InvalidReference, w)"
  using assms by (simp add: getSharedInfo_def downloadFromSharedPod_def downloadShared_def)

theorem invalid_reference_rejected_first_witness:
  "\<not> assertEncryptedReference demo ''zz'' \<and>
   getSharedInfo demo guest ''zz'' w0 = (Inl InvalidReference, w0) \<and>
   downloadFromSharedPod demo guest ''zz'' ''/a'' w0 = (Inl InvalidReference, w0) \<and>
   downloadShared demo guest ''zz'' w0 = (Inl InvalidReference, w0)"
proof -
  have h: "\<not> assertEncryptedReference demo ''zz''" by (simp add: demo_def)
  from invalid_reference_rejected_first[OF h] h show ?thesis by simp
qed

text \<open>
  C7. \<open>getSharedInfo\<close>, \<open>downloadShared\<close> and \<open>downloadFromSharedPod\<close> do not consult
  \<open>assertAccount\<close>: replacing that predicate by any other leaves their outcome unchanged,
  and they never fail with \<open>NotAuthenticated\<close>; for a well-formed reference
  \<open>getSharedInfo\<close> is the call of \<open>getSharedFileInfo\<close> on the connection, nothing else.
  By contrast \<open>uploadData\<close>, \<open>downloadData\<close>, \<open>delete\<close> and \<open>share\<close> fail with
  \<open>NotAuthenticated\<close>, before anything else happens, when the account has no session.
\<close>

theorem shared_reads_need_no_session:
  "getSharedInfo (E\<lparr>assertAccount := f\<rparr>) a ref w = getSharedInfo E a ref w \<and>
   downloadShared (E\<lparr>assertAccount := f\<rparr>) a ref w = downloadShared E a ref w \<and>
   downloadFromSharedPod (E\<lparr>assertAccount := f\<rparr>) a ref fp w = downloadFromSharedPod E a ref fp w \<and>
   fst (getSharedInfo E a ref w) \<noteq> Inl NotAuthenticated \<and>
   fst (downloadShared E a ref w) \<noteq> Inl NotAuthenticated \<and>
   fst (downloadFromSharedPod E a ref fp w) \<noteq> Inl NotAuthenticated \<and>
   (assertEncryptedReference E ref \<longrightarrow>
      getSharedInfo E a ref w =
        call (GetSharedFileInfo ref) (getSharedFileInfo E (bee (connection a)) ref) w) \<and>
   (\<not> assertAccount E a \<longrightarrow>
      uploadData E a pod fp d opts w = Some (Inl NotAuthenticated, w) \<and>
      downloadData E a pod fp w = (Inl NotAuthenticated, w) \<and>
      delete E a pod fp w = (Inl NotAuthenticated, w) \<and>
      share E a pod fp w = (Inl NotAuthenticated, w))"
proof -
  have 1: "getSharedInfo (E\<lparr>assertAccount := f\<rparr>) a ref w = getSharedInfo E a ref w"
    by (simp add: getSharedInfo_def)
  have 2: "downloadShared (E\<lparr>assertAccount := f\<rparr>) a ref w = downloadShared E a ref w"
    by (simp add: downloadShared_def getSharedInfo_def split: prod.splits sum.splits)
  have 3: "downloadFromSharedPod (E\<lparr>assertAccount := f\<rparr>) a ref fp w
             = downloadFromSharedPod E a ref fp w"
    by (simp add: downloadFromSharedPod_def split: prod.splits sum.splits)
  have 4: "assertEncryptedReference E ref \<longrightarrow>
      getSharedInfo E a ref w =
        call (GetSharedFileInfo ref) (getSharedFileInfo E (bee (connection a)) ref) w"
    by (simp add: getSharedInfo_def)
  show ?thesis
    using 1 2 3 4 getSharedInfo_not_NotAuthenticated[of E a ref w]
      downloadShared_not_NotAuthenticated[of E a ref w]
      downloadFromSharedPod_not_NotAuthenticated[of E a ref fp w]
      session_asserted_first[of E a]
    by (intro conjI impI) simp_all
qed

theorem shared_reads_need_no_session_witness:
  "assertEncryptedReference demo ref128 \<and> \<not> assertAccount demo guest \<and>
   getSharedInfo demo guest ref128 w0 =
     call (GetSharedFileInfo ref128) (getSharedFileInfo demo (bee (connection guest)) ref128) w0 \<and>
   getSharedInfo demo guest ref128 w0 =
     (Inr shared_info, \<lparr>trace = [GetSharedFileInfo ref128], ext = 1\<rparr>) \<and>
   uploadData demo guest ''pod'' ''/a'' (Bytes [1, 2, 3]) None w0 = Some (Inl NotAuthenticated, w0) \<and>
   downloadData demo guest ''pod'' ''/a'' w0 = (Inl NotAuthenticated, w0) \<and>
   delete demo guest ''pod'' ''/a'' w0 = (Inl NotAuthenticated, w0) \<and>
   share demo guest ''pod'' ''/a'' w0 = (Inl NotAuthenticated, w0)"
proof -
  have h: "assertEncryptedReference demo ref128" "\<not> assertAccount demo guest"
    by (simp_all add: demo_def ref128_def guest_def)
  have r: "getSharedInfo demo guest ref128 w0 =
     (Inr shared_info, \<lparr>trace = [GetSharedFileInfo ref128], ext = 1\<rparr>)"
    by (simp add: getSharedInfo_def call_def demo_def ref128_def guest_def w0_def shared_info_def)
  from shared_reads_need_no_session[where E = demo and f = "assertAccount demo" and a = guest
      and ref = ref128 and w = w0 and fp = "''/a''" and pod = "''pod''"
      and d = "Bytes [1, 2, 3]" and opts = None] h r
  show ?thesis by simp
qed

text \<open>
  C3. The metadata that \<open>saveShared\<close> returns has the pod name, the path and the pod
  address of the importing pod; its file name is the rename when one is given and the shared
  name otherwise; its \<open>fileSize\<close>, \<open>blocksReference\<close> and \<open>creationTime\<close> are those of
  the shared metadata. The operation resolves the share, looks the pod up, registers the
  directory entry and publishes the metadata through the feed, in this order, and uploads
  nothing to the store. (\<open>updateFileMetadata\<close> is modelled from the spec.)
\<close>

theorem saveShared_rewrites_and_preserves:
  assumes "saveShared E a pod pp ref opts w = (Inr m, w')"
  shows "\<exists>si info s1 s2.
           getSharedFileInfo E (bee (connection a)) ref (ext w) = (Inr si, s1) \<and>
           getExtendedPodsListByAccountData E a pod s1 = (Inr info, s2) \<and>
           podName m = pod \<and> filePath m = pp \<and> podAddress m = extPodAddress info \<and>
           (\<forall>n. opts = Some \<lparr>name_opt = Some n\<rparr> \<longrightarrow> fileName m = n) \<and>
           (opts = None \<or> opts = Some \<lparr>name_opt = None\<rparr> \<longrightarrow> fileName m = file_name (meta si)) \<and>
           fileSize m = fileSize (rawFileMetadataToFileMetadata E (meta si)) \<and>
           blocksReference m = blocksReference (rawFileMetadataToFileMetadata E (meta si)) \<and>
           creationTime m = creationTime (rawFileMetadataToFileMetadata E (meta si)) \<and>
           trace w' = trace w @
             [GetSharedFileInfo ref, GetExtendedPodsList pod,
              AddEntryToDirectory (podWallet info) pp (fileName m) True,
              WriteFeedData (combine E pp (fileName m)) (getFileMetadataRawBytes E m)
                (privateKey (podWallet info))] \<and>
           filter is_store_write (drop (length (trace w)) (trace w')) = []"
proof -
  from saveShared_success[OF assms] obtain si info s1 s2 where
    g1: "getSharedFileInfo E (bee (connection a)) ref (ext w) = (Inr si, s1)" and
    g2: "getExtendedPodsListByAccountData E a pod s1 = (Inr info, s2)" and
    m: "m = updateFileMetadata (rawFileMetadataToFileMetadata E (meta si)) pod pp
              (receive_name opts (file_name (meta si))) (extPodAddress info)" and
    tr: "trace w' = trace w @
             [GetSharedFileInfo ref, GetExtendedPodsList pod,
              AddEntryToDirectory (podWallet info) pp (receive_name opts (file_name (meta si))) True,
              WriteFeedData (combine E pp (receive_name opts (file_name (meta si))))
                (getFileMetadataRawBytes E m) (privateKey (podWallet info))]"
    by blast
  have fn: "fileName m = receive_name opts (file_name (meta si))"
    by (simp add: m updateFileMetadata_def)
  have f: "podName m = pod" "filePath m = pp" "podAddress m = extPodAddress info"
    "fileSize m = fileSize (rawFileMetadataToFileMetadata E (meta si))"
    "blocksReference m = blocksReference (rawFileMetadataToFileMetadata E (meta si))"
    "creationTime m = creationTime (rawFileMetadataToFileMetadata E (meta si))"
    by (simp_all add: m updateFileMetadata_def)
  have n1: "\<forall>n. opts = Some \<lparr>name_opt = Some n\<rparr> \<longrightarrow> fileName m = n"
    by (simp add: fn receive_name_def)
  have n2: "opts = None \<or> opts = Some \<lparr>name_opt = None\<rparr> \<longrightarrow> fileName m = file_name (meta si)"
    by (auto simp: fn receive_name_def)
  have tr': "trace w' = trace w @
             [GetSharedFileInfo ref, GetExtendedPodsList pod,
              AddEntryToDirectory (podWallet info) pp (fileName m) True,
              WriteFeedData (combine E pp (fileName m)) (getFileMetadataRawBytes E m)
                (privateKey (podWallet info))]"
    using tr by (simp only: fn)
  have nw: "filter is_store_write (drop (length (trace w)) (trace w')) = []"
    by (simp add: tr')
  show ?thesis
    apply (rule exI[of _ si], rule exI[of _ info], rule exI[of _ s1], rule exI[of _ s2])
    using g1 g2 f n1 n2 tr' nw by (intro conjI) 
qed

theorem saveShared_rewrites_and_preserves_witness:
  "saveShared demo guest ''pod'' ''/docs/'' ref128 rename_b w0 = (Inr saved_meta, saved_world) \<and>
   rename_b = Some \<lparr>name_opt = Some ''b''\<rparr> \<and>
   podName saved_meta = ''pod'' \<and> filePath saved_meta = ''/docs/'' \<and>
   fileName saved_meta = ''b'' \<and>
   filter is_store_write (drop (length (trace w0)) (trace saved_world)) = [] \<and>
   fileName (saved_meta\<lparr>fileName := ''a''\<rparr>) = file_name (meta shared_info)"
proof -
  have r: "rename_b = Some \<lparr>name_opt = Some ''b''\<rparr>" by (simp add: rename_b_def)
  from saveShared_rewrites_and_preserves[OF demo_saveShared] r
  have a: "podName saved_meta = ''pod'' \<and> filePath saved_meta = ''/docs/'' \<and>
        fileName saved_meta = ''b'' \<and>
        filter is_store_write (drop (length (trace w0)) (trace saved_world)) = []"
    by blast
  have g: "getSharedFileInfo demo (bee (connection guest)) ref128 (ext w0) = (Inr shared_info, 1)"
    by (simp add: demo_def shared_info_def w0_def)
  from saveShared_rewrites_and_preserves[OF demo_saveShared_plain] g
  have b: "fileName (saved_meta\<lparr>fileName := ''a''\<rparr>) = file_name (meta shared_info)"
    by (metis Pair_inject sum.inject(2))
  from a b demo_saveShared r show ?thesis by simp
qed

text \<open>
  C9. \<open>saveShared\<close> does not consult \<open>assertAccount\<close>: replacing that predicate by any
  other leaves its outcome unchanged. It checks the pod name, then resolves the share (which
  checks the reference), looks the pod up with the account data as it is, registers the
  directory entry and publishes the metadata. By contrast \<open>uploadData\<close>, \<open>downloadData\<close>,
  \<open>delete\<close> and \<open>share\<close> fail with \<open>NotAuthenticated\<close>, before anything else
  happens, when the account has no session.
\<close>

theorem saveShared_asserts_no_session:
  "saveShared (E\<lparr>assertAccount := f\<rparr>) a pod pp ref opts w = saveShared E a pod pp ref opts w \<and>
   (\<not> assertPodName E pod \<longrightarrow> saveShared E a pod pp ref opts w = (Inl InvalidPodName, w)) \<and>
   (assertPodName E pod \<and> assertEncryptedReference E ref \<and>
    getSharedFileInfo E (bee (connection a)) ref (ext w) = (Inr si, s1) \<and>
    getExtendedPodsListByAccountData E a pod s1 = (Inr info, s2) \<and>
    addEntryToDirectory E (connection a) (podWallet info) pp
      (receive_name opts (file_name (meta si))) True s2 = (Inr (), s3) \<and>
    writeFeedData E (connection a) (combine E pp (receive_name opts (file_name (meta si))))
      (getFileMetadataRawBytes E
         (updateFileMetadata (rawFileMetadataToFileMetadata E (meta si)) pod pp
            (receive_name opts (file_name (meta si))) (extPodAddress info)))
      (privateKey (podWallet info)) s3 = (Inr (), s4) \<longrightarrow>
      saveShared E a pod pp ref opts w =
        (Inr (updateFileMetadata (rawFileMetadataToFileMetadata E (meta si)) pod pp
                (receive_name opts (file_name (meta si))) (extPodAddress info)),
         \<lparr>trace = trace w @
            [GetSharedFileInfo ref, GetExtendedPodsList pod,
             AddEntryToDirectory (podWallet info) pp
               (receive_name opts (file_name (meta si))) True,
             WriteFeedData (combine E pp (receive_name opts (file_name (meta si))))
               (getFileMetadataRawBytes E
                  (updateFileMetadata (rawFileMetadataToFileMetadata E (meta si)) pod pp
                     (receive_name opts (file_name (meta si))) (extPodAddress info)))
               (privateKey (podWallet info))],
          ext = s4\<rparr>)) \<and>
   (\<not> assertAccount E a \<longrightarrow>
      uploadData E a pod fp d uopts w = Some (Inl NotAuthenticated, w) \<and>
      downloadData E a pod fp w = (Inl NotAuthenticated, w) \<and>
      delete E a pod fp w = (Inl NotAuthenticated, w) \<and>
      share E a pod fp w = (Inl NotAuthenticated, w))"
proof -
  have 1: "saveShared (E\<lparr>assertAccount := f\<rparr>) a pod pp ref opts w = saveShared E a pod pp ref opts w"
    by (simp add: saveShared_def getSharedInfo_def Let_def split: prod.splits sum.splits)
  have 2: "\<not> assertPodName E pod \<longrightarrow> saveShared E a pod pp ref opts w = (Inl InvalidPodName, w)"
    by (simp add: saveShared_def)
  show ?thesis
    using 1 2 saveShared_run[of E pod ref a w si s1 info s2 pp opts s3 s4]
      session_asserted_first[of E a]
    by (intro conjI impI) simp_all
qed

theorem saveShared_asserts_no_session_witness:
  "\<not> assertAccount demo guest \<and> assertPodName demo ''pod'' \<and> \<not> assertPodName demo [] \<and>
   assertEncryptedReference demo ref128 \<and>
   getSharedFileInfo demo (bee (connection guest)) ref128 (ext w0) = (Inr shared_info, 1) \<and>
   getExtendedPodsListByAccountData demo guest ''pod'' 1 = (Inr demo_info, 2) \<and>
   addEntryToDirectory demo (connection guest) (podWallet demo_info) ''/docs/''
     (receive_name rename_b (file_name (meta shared_info))) True 2 = (Inr (), 3) \<and>
   writeFeedData demo (connection guest)
     (combine demo ''/docs/'' (receive_name rename_b (file_name (meta shared_info))))
     (getFileMetadataRawBytes demo
        (updateFileMetadata (rawFileMetadataToFileMetadata demo (meta shared_info)) ''pod''
           ''/docs/'' (receive_name rename_b (file_name (meta shared_info)))
           (extPodAddress demo_info)))
     (privateKey (podWallet demo_info)) 3 = (Inr (), 4) \<and>
   saveShared demo guest ''pod'' ''/docs/'' ref128 rename_b w0 = (Inr saved_meta, saved_world) \<and>
   saveShared demo guest [] ''/docs/'' ref128 rename_b w0 = (Inl InvalidPodName, w0) \<and>
   uploadData demo guest ''pod'' ''/a'' (Bytes [1, 2, 3]) None w0 = Some (Inl NotAuthenticated, w0) \<and>
   downloadData demo guest ''pod'' ''/a'' w0 = (Inl NotAuthenticated, w0) \<and>
   delete demo guest ''pod'' ''/a'' w0 = (Inl NotAuthenticated, w0) \<and>
   share demo guest ''pod'' ''/a'' w0 = (Inl NotAuthenticated, w0)"
proof -
  have h: "\<not> assertAccount demo guest" "assertPodName demo ''pod''" "\<not> assertPodName demo []"
    "assertEncryptedReference demo ref128"
    "getSharedFileInfo demo (bee (connection guest)) ref128 (ext w0) = (Inr shared_info, 1)"
    "getExtendedPodsListByAccountData demo guest ''pod'' 1 = (Inr demo_info, 2)"
    "addEntryToDirectory demo (connection guest) (podWallet demo_info) ''/docs/''
       (receive_name rename_b (file_name (meta shared_info))) True 2 = (Inr (), 3)"
    "writeFeedData demo (connection guest)
       (combine demo ''/docs/'' (receive_name rename_b (file_name (meta shared_info))))
       (getFileMetadataRawBytes demo
          (updateFileMetadata (rawFileMetadataToFileMetadata demo (meta shared_info)) ''pod''
             ''/docs/'' (receive_name rename_b (file_name (meta shared_info)))
             (extPodAddress demo_info)))
       (privateKey (podWallet demo_info)) 3 = (Inr (), 4)"
    by (simp_all add: demo_def guest_def ref128_def shared_info_def w0_def)
  note T1 = saveShared_asserts_no_session[where E = demo and f = "assertAccount demo" and a = guest
      and pod = "''pod''" and pp = "''/docs/''" and ref = ref128 and opts = rename_b and w = w0
      and si = shared_info and ?s1.0 = 1 and info = demo_info and ?s2.0 = 2 and ?s3.0 = 3
      and ?s4.0 = 4 and fp = "''/a''" and d = "Bytes [1, 2, 3]" and uopts = None]
  note T2 = saveShared_asserts_no_session[where E = demo and f = "assertAccount demo" and a = guest
      and pod = "[]" and pp = "''/docs/''" and ref = ref128 and opts = rename_b and w = w0
      and si = shared_info and ?s1.0 = 1 and info = demo_info and ?s2.0 = 2 and ?s3.0 = 3
      and ?s4.0 = 4 and fp = "''/a''" and d = "Bytes [1, 2, 3]" and uopts = None]
  from T1 h have a:
    "uploadData demo guest ''pod'' ''/a'' (Bytes [1, 2, 3]) None w0 = Some (Inl NotAuthenticated, w0)"
    "downloadData demo guest ''pod'' ''/a'' w0 = (Inl NotAuthenticated, w0)"
    "delete demo guest ''pod'' ''/a'' w0 = (Inl NotAuthenticated, w0)"
    "share demo guest ''pod'' ''/a'' w0 = (Inl NotAuthenticated, w0)"
    by blast+
  from T2 h(3) have b: "saveShared demo guest [] ''/docs/'' ref128 rename_b w0 = (Inl InvalidPodName, w0)"
    by blast
  from a b h demo_saveShared show ?thesis by simp
qed

end
